theory Spec2Isabelle
  imports Main "HOL-Library.Word"
begin

section \<open>Source positions (go-jsonnet \<open>ast\<close>, editor protocol)\<close>

text \<open>
  \<open>pkg/lsp/lsp.go\<close> converts between the parser's 1-based locations and the
  editor's 0-based positions. \<open>ast.Location\<close> has two Go \<open>int\<close> fields, here
  64-bit two's complement words (the width of \<open>int\<close> on the 64-bit targets the
  server is built for); \<open>protocol.Position\<close> has two \<open>uint32\<close> fields. The
  conversion \<open>uint32(x)\<close> keeps the low 32 bits, \<open>int(x)\<close> of a \<open>uint32\<close>
  extends with zeros, and the comparison \<open>line > 0\<close> on \<open>int\<close> is the signed one.
\<close>

record Location =
  Line :: "64 word"
  Column :: "64 word"

text \<open>\<open>protocol.Position\<close>; its field \<open>Line\<close> is written \<open>PLine\<close> here.\<close>

record Position =
  PLine :: "32 word"
  Character :: "32 word"

record LocationRange =
  FileName :: string
  Begin :: Location
  End :: Location

text \<open>\<open>protocol.Range\<close>; its field \<open>End\<close> is written \<open>REnd\<close> here.\<close>

record Range =
  Start :: Position
  REnd :: Position

definition posToProto :: "Location \<Rightarrow> Position" where
  "posToProto p =
     (let line = Line p; col = Column p;
          line = (if 0 <s line then line - 1 else line);
          col = (if 0 <s col then col - 1 else col)
      in \<lparr>PLine = ucast line, Character = ucast col\<rparr>)"

definition protoToPos :: "Position \<Rightarrow> Location" where
  "protoToPos p = \<lparr>Line = ucast (PLine p) + 1, Column = ucast (Character p) + 1\<rparr>"

definition rangeToProto :: "LocationRange \<Rightarrow> Range" where
  "rangeToProto r = \<lparr>Start = posToProto (Begin r), REnd = posToProto (End r)\<rparr>"

section \<open>Errors and the external collaborators\<close>

text \<open>
  \<open>uri.URI\<close> is a Go string type. The evaluator's errors come in the shapes
  \<open>ErrCollector.Collect\<close> switches on: a value with the methods \<open>Error()\<close> and
  \<open>Loc()\<close> (the \<open>staticError\<close> interface of the source; the constructor carries
  what the two methods return), a \<open>jsonnet.RuntimeError\<close> with its fields
  \<open>StackTrace\<close> and \<open>Msg\<close>, and any other error (those built with
  \<open>fmt.Errorf\<close>, the file system's), which carries its message.
\<close>

type_synonym uri = string

record TraceFrame =
  Loc :: LocationRange
  Name :: string

datatype error =
    StaticError string LocationRange
  | RuntimeError "TraceFrame list" string
  | OtherError string

fun Error :: "error \<Rightarrow> string" where
  "Error (StaticError msg l) = msg"
| "Error (RuntimeError st msg) = ''RUNTIME ERROR: '' @ msg"
| "Error (OtherError msg) = msg"

datatype panic = IndexOutOfRange | NoRootImported | TextEditPanic

text \<open>
  The syntax tree of go-jsonnet, as far as this file looks at it: a node has a
  location (\<open>Loc()\<close>), the names it introduces by its kind, and children. The kinds
  that introduce names are those the spec lists: binding declarations, function
  parameters, object fields, comprehension variables and import aliases. Go compares
  nodes by pointer; the model compares them by value, so the nodes of one tree are
  taken to differ (their locations do).
\<close>

datatype bindings =
    Local "string list"
  | Function "string list"
  | Object "string list"
  | Comprehension "string list"
  | ImportAlias "string list"
  | NoBinder

datatype node = Node (nodeLoc: LocationRange) (nodeBindings: bindings) (children: "node list")

text \<open>\<open>gotextdiff\<close> and its \<open>span\<close> package: points, spans and text edits.\<close>

record Point =
  PtLine :: int
  PtColumn :: int
  PtOffset :: int

record Span =
  SpanURI :: string
  SpanStart :: Point
  SpanEnd :: Point

record TextEdit =
  EditSpan :: Span
  NewText :: string



text \<open>
  The overlay's entry (package \<open>overlay\<close>): version, text and the parse function's
  result. \<open>Data\<close> is \<open>None\<close> when it does not hold a \<open>*ParseResult\<close>. The version's
  Go type is declared in that package; it is an integer here, and \<open>uint32(...)\<close> of it
  keeps the low 32 bits.
\<close>

record ParseResult =
  Root :: "node option"
  Err :: "error option"

record Entry =
  Version :: int
  Contents :: string
  Data :: "ParseResult option"

record UpdateResult =
  Current :: "Entry option"
  Parsed :: "Entry option"

text \<open>\<open>jsonnet.Contents\<close>: the zero value \<open>Contents{}\<close>, or \<open>MakeContentsRaw(data)\<close>.\<close>

datatype Contents = ContentsZero | MakeContentsRaw string

record foundCacheItem =
  err :: "error option"
  contents :: Contents
  uri :: uri

text \<open>
  The state of the closure \<open>newImporter\<close> returns: the file it was made for and its
  cache. \<open>vmCache\<close> is the source's struct; of the \<open>jsonnet.VM\<close> it points to, the
  model keeps the importer installed in it. Its field \<open>from\<close> is written \<open>vmFrom\<close>
  and a parameter \<open>from\<close> of the source \<open>from_uri\<close> or \<open>from_node\<close>, as
  \<open>from\<close> is a keyword here.
\<close>

record lspImporter =
  importerFrom :: uri
  cache :: "string \<Rightarrow> foundCacheItem option"

record vmCache =
  vmFrom :: uri
  vmImporter :: lspImporter

text \<open>
  \<open>Server\<close>: the fields this file reads. \<open>rootFS\<close> is \<open>fs.ReadFile(s.rootFS, path)\<close>,
  \<open>overlay\<close> is \<open>s.overlay.Parsed(uri)\<close> (\<open>None\<close> for nil), \<open>vm\<close> is the
  one-engine slot (\<open>None\<close> for nil).
\<close>

record Server =
  rootURI :: uri
  rootFS :: "string \<Rightarrow> error + string"
  searchPaths :: "string list"
  overlay :: "uri \<Rightarrow> Entry option"
  vm :: "vmCache option"

text \<open>
  The library functions the file calls, as parameters: \<open>filepath.IsAbs\<close>,
  \<open>filepath.Rel\<close> (\<open>Inl\<close> its error; Go returns the empty string beside it),
  \<open>filepath.Dir\<close>, \<open>filepath.Join\<close>, \<open>uri.File\<close>, \<open>URI.Filename\<close>,
  \<open>jsonnet.SnippetToAST\<close> (tree and error), \<open>gotextdiff.ApplyEdits\<close> (\<open>Inl\<close> when
  it panics), \<open>linter.LintSnippet\<close> (the errors it hands to the engine's error
  formatter, in order, for a snippet of file name and code) and the engine's own
  \<open>VM.ImportAST\<close> (\<open>Inl\<close> its error, else tree and the path it was found at).
\<close>

record Lib =
  IsAbs :: "string \<Rightarrow> bool"
  Rel :: "string \<Rightarrow> string \<Rightarrow> error + string"
  Dir :: "string \<Rightarrow> string"
  Join :: "string list \<Rightarrow> string"
  File :: "string \<Rightarrow> uri"
  Filename :: "uri \<Rightarrow> string"
  SnippetToAST :: "string \<Rightarrow> string \<Rightarrow> node option \<times> error option"
  ApplyEdits :: "string \<Rightarrow> TextEdit list \<Rightarrow> panic + string"
  LintSnippet :: "vmCache \<Rightarrow> string \<times> string \<Rightarrow> error list"
  VMImportAST :: "Server \<Rightarrow> vmCache \<Rightarrow> string \<Rightarrow> string \<Rightarrow> (error + node \<times> string) \<times> vmCache"

section \<open>Reading a URI and resolving an import path\<close>

text \<open>\<open>'%s'\<close> in a format string: the text between single quotes.\<close>

definition quoted :: "string \<Rightarrow> string" where
  "quoted w = [CHR 0x27] @ w @ [CHR 0x27]"

definition readURI :: "Lib \<Rightarrow> Server \<Rightarrow> uri \<Rightarrow> error + string" where
  "readURI L s u =
     (case overlay s u of
        Some ent \<Rightarrow> Inr (Contents ent)
      | None \<Rightarrow>
          (case Rel L (Filename L (rootURI s)) (Filename L u) of
             Inl e \<Rightarrow> Inl (OtherError (''failed to open URI '' @ quoted u @ '': '' @ Error e))
           | Inr path \<Rightarrow> rootFS s path))"

text \<open>\<open>path, _ = filepath.Rel(rootPath, path)\<close> for an absolute path.\<close>

definition relToRoot :: "Lib \<Rightarrow> Server \<Rightarrow> string \<Rightarrow> string" where
  "relToRoot L s path =
     (if IsAbs L path
      then (case Rel L (Filename L (rootURI s)) path of Inr p \<Rightarrow> p | Inl e \<Rightarrow> [])
      else path)"

text \<open>The candidate list \<open>readPath\<close> builds, for the rewritten path.\<close>

definition candidates :: "Lib \<Rightarrow> Server \<Rightarrow> string \<Rightarrow> string \<Rightarrow> uri list" where
  "candidates L s fromPath path =
     (let rootPath = Filename L (rootURI s)
      in [File L (Join L [rootPath, path]), File L (Join L [rootPath, fromPath, path])]
         @ map (\<lambda>search. File L (Join L [rootPath, search, path])) (searchPaths s))"

text \<open>The loop over the candidates: the first one \<open>readURI\<close> reads.\<close>

fun tryCandidates :: "Lib \<Rightarrow> Server \<Rightarrow> uri list \<Rightarrow> (string \<times> uri) option" where
  "tryCandidates L s [] = None"
| "tryCandidates L s (candidate # rest) =
     (case readURI L s candidate of
        Inr data \<Rightarrow> Some (data, candidate)
      | Inl e \<Rightarrow> tryCandidates L s rest)"

text \<open>How \<open>fmt\<close> prints a list of URIs with \<open>%v\<close>, between the brackets.\<close>

fun spaced :: "string list \<Rightarrow> string" where
  "spaced [] = []"
| "spaced [w] = w"
| "spaced (w # ws) = w @ '' '' @ spaced ws"

definition readPath :: "Lib \<Rightarrow> Server \<Rightarrow> string \<Rightarrow> uri \<Rightarrow> error + string \<times> uri" where
  "readPath L s path0 from_uri =
     (let rootPath = Filename L (rootURI s);
          path = relToRoot L s path0
      in case Rel L rootPath (Dir L (Filename L from_uri)) of
           Inl e \<Rightarrow>
             Inl (OtherError (''failed to open '' @ quoted path
                              @ '' -- could not relativize '' @ quoted from_uri
                              @ '' to root '' @ quoted (rootURI s) @ '' '' @ Error e))
         | Inr fromPath \<Rightarrow>
             (case tryCandidates L s (candidates L s fromPath path) of
                Some found \<Rightarrow> Inr found
              | None \<Rightarrow>
                  Inl (OtherError (''path '' @ quoted path @ '' not found in candidates [''
                                   @ spaced (candidates L s fromPath path) @ '']''))))"

section \<open>The importer and the one-engine cache\<close>

definition newImporter :: "uri \<Rightarrow> lspImporter" where
  "newImporter from_uri = \<lparr>importerFrom = from_uri, cache = (\<lambda>p. None)\<rparr>"

text \<open>
  One call of the importer closure. It returns Go's result triple (contents, found-at
  path, error), the closure with its cache as the call leaves it, and the calls of
  \<open>readPath\<close> the call made, as (path, importing file): the only way the closure
  reaches the overlay and the file system.
\<close>

definition importerCall ::
  "Lib \<Rightarrow> Server \<Rightarrow> lspImporter \<Rightarrow> string \<Rightarrow> string
    \<Rightarrow> (Contents \<times> string \<times> error option) \<times> lspImporter \<times> (string \<times> uri) list" where
  "importerCall L s imp importedFrom importedPath =
     (case cache imp importedPath of
        Some item \<Rightarrow>
          (case err item of
             Some e \<Rightarrow> ((ContentsZero, [], Some e), imp, [])
           | None \<Rightarrow> ((contents item, Filename L (uri item), None), imp, []))
      | None \<Rightarrow>
          (case readPath L s importedPath (importerFrom imp) of
             Inl e \<Rightarrow>
               ((ContentsZero, [], Some e),
                imp\<lparr>cache := (cache imp)(importedPath \<mapsto>
                       \<lparr>err = Some e, contents = ContentsZero, uri = []\<rparr>)\<rparr>,
                [(importedPath, importerFrom imp)])
           | Inr (data, foundURI) \<Rightarrow>
               ((MakeContentsRaw data, Filename L foundURI, None),
                imp\<lparr>cache := (cache imp)(importedPath \<mapsto>
                       \<lparr>err = None, contents = MakeContentsRaw data, uri = foundURI\<rparr>)\<rparr>,
                [(importedPath, importerFrom imp)])))"

text \<open>A run of importer calls, each with the server as it is then.\<close>

fun importerCalls :: "Lib \<Rightarrow> lspImporter \<Rightarrow> (Server \<times> string \<times> string) list \<Rightarrow> lspImporter" where
  "importerCalls L imp [] = imp"
| "importerCalls L imp ((s, importedFrom, importedPath) # rest) =
     importerCalls L (fst (snd (importerCall L s imp importedFrom importedPath))) rest"

definition getVM :: "Server \<Rightarrow> uri \<Rightarrow> vmCache \<times> Server" where
  "getVM s u =
     (case vm s of
        Some c \<Rightarrow>
          if u = vmFrom c then (c, s)
          else (\<lparr>vmFrom = u, vmImporter = newImporter u\<rparr>,
                s\<lparr>vm := Some \<lparr>vmFrom = u, vmImporter = newImporter u\<rparr>\<rparr>)
      | None \<Rightarrow>
          (\<lparr>vmFrom = u, vmImporter = newImporter u\<rparr>,
           s\<lparr>vm := Some \<lparr>vmFrom = u, vmImporter = newImporter u\<rparr>\<rparr>))"

section \<open>Collecting diagnostics\<close>

datatype DiagnosticSeverity =
    DiagnosticSeverityError
  | DiagnosticSeverityWarning
  | DiagnosticSeverityInformation
  | DiagnosticSeverityHint

record Diagnostic =
  Range :: Range
  Severity :: DiagnosticSeverity
  Source :: string
  Message :: string

record ErrCollector =
  URI :: uri
  Diags :: "Diagnostic list"

text \<open>
  \<open>Collect\<close> returns the collector as the call leaves it and the errors the call
  wrote to the log with \<open>logf\<close>. Indexing an empty \<open>StackTrace\<close> with \<open>[0]\<close>
  panics.
\<close>

definition Collect ::
  "Lib \<Rightarrow> ErrCollector \<Rightarrow> error \<Rightarrow> DiagnosticSeverity \<Rightarrow> panic + ErrCollector \<times> error list" where
  "Collect L e er severity =
     (case er of
        StaticError msg l \<Rightarrow>
          if FileName l = Filename L (URI e)
          then Inr (e\<lparr>Diags := Diags e @
                      [\<lparr>Range = rangeToProto l, Severity = severity,
                        Source = ''jsonnet'', Message = Error er\<rparr>]\<rparr>, [])
          else Inr (e, [])
      | RuntimeError st msg \<Rightarrow>
          (case st of
             [] \<Rightarrow> Inl IndexOutOfRange
           | frame # rest \<Rightarrow>
               Inr (e\<lparr>Diags := Diags e @
                      [\<lparr>Range = rangeToProto (Loc frame), Severity = DiagnosticSeverityError,
                        Source = ''jsonnet'', Message = msg\<rparr>]\<rparr>, []))
      | OtherError msg \<Rightarrow> Inr (e, [er]))"

text \<open>\<open>Format\<close>: collect at warning severity, return the error's text.\<close>

definition Format ::
  "Lib \<Rightarrow> ErrCollector \<Rightarrow> error \<Rightarrow> panic + (ErrCollector \<times> error list) \<times> string" where
  "Format L e er =
     (case Collect L e er DiagnosticSeverityWarning of
        Inl p \<Rightarrow> Inl p
      | Inr r \<Rightarrow> Inr (r, Error er))"

text \<open>The linter hands its errors to \<open>Format\<close> one after the other.\<close>

fun formatAll :: "Lib \<Rightarrow> ErrCollector \<Rightarrow> error list \<Rightarrow> panic + ErrCollector \<times> error list" where
  "formatAll L e [] = Inr (e, [])"
| "formatAll L e (er # ers) =
     (case Format L e er of
        Inl p \<Rightarrow> Inl p
      | Inr ((e', lg), txt) \<Rightarrow>
          (case formatAll L e' ers of
             Inl p \<Rightarrow> Inl p
           | Inr (e'', lg') \<Rightarrow> Inr (e'', lg @ lg')))"

section \<open>Parsing with recovery\<close>

definition StaticErr :: "ParseResult option \<Rightarrow> error option" where
  "StaticErr p =
     (case p of
        None \<Rightarrow> None
      | Some r \<Rightarrow>
          (case Err r of
             Some (StaticError msg l) \<Rightarrow> Some (StaticError msg l)
           | _ \<Rightarrow> None))"






section \<open>Processing a document update\<close>

record PublishDiagnosticsParams =
  PubURI :: uri
  PubVersion :: "32 word"
  Diagnostics :: "Diagnostic list"

text \<open>
  What \<open>processFileUpdateFn\<close> fixes before it returns its function: the URI, the
  engine from \<open>getVM\<close> and a collector with no diagnostics.
\<close>

record UpdateFunc =
  updURI :: uri
  cvm :: vmCache
  ec :: ErrCollector

definition processFileUpdateFn :: "Server \<Rightarrow> uri \<Rightarrow> UpdateFunc \<times> Server" where
  "processFileUpdateFn s u =
     (\<lparr>updURI = u, cvm = fst (getVM s u), ec = \<lparr>URI = u, Diags = []\<rparr>\<rparr>, snd (getVM s u))"

text \<open>
  The effect of one call of that function: the collector afterwards, the snippets
  handed to the linter, and what was sent with \<open>PublishDiagnostics\<close>.
\<close>

record UpdateEffect =
  collector :: ErrCollector
  linted :: "(string \<times> string) list"
  published :: "PublishDiagnosticsParams list"

definition publishParams :: "uri \<Rightarrow> Entry \<Rightarrow> ErrCollector \<Rightarrow> PublishDiagnosticsParams" where
  "publishParams u cur e =
     \<lparr>PubURI = u, PubVersion = word_of_int (Version cur), Diagnostics = Diags e\<rparr>"

definition callUpdateFunc :: "Lib \<Rightarrow> UpdateFunc \<Rightarrow> UpdateResult \<Rightarrow> panic + UpdateEffect" where
  "callUpdateFunc L f ur =
     (case Current ur of
        None \<Rightarrow> Inr \<lparr>collector = ec f, linted = [], published = []\<rparr>
      | Some cur \<Rightarrow>
          (case StaticErr (Data cur) of
             Some se \<Rightarrow>
               (case Collect L (ec f) se DiagnosticSeverityError of
                  Inl p \<Rightarrow> Inl p
                | Inr (e', lg) \<Rightarrow>
                    Inr \<lparr>collector = e', linted = [],
                         published = [publishParams (updURI f) cur e']\<rparr>)
           | None \<Rightarrow>
               (case Parsed ur of
                  Some parsed \<Rightarrow>
                    if Version cur = Version parsed
                    then
                      (case formatAll L (ec f)
                              (LintSnippet L (cvm f) (Filename L (updURI f), Contents parsed)) of
                         Inl p \<Rightarrow> Inl p
                       | Inr (e', lg) \<Rightarrow>
                           Inr \<lparr>collector = e',
                                linted = [(Filename L (updURI f), Contents parsed)],
                                published = [publishParams (updURI f) cur e']\<rparr>)
                    else Inr \<lparr>collector = ec f, linted = [],
                              published = [publishParams (updURI f) cur (ec f)]\<rparr>
                | None \<Rightarrow>
                    Inr \<lparr>collector = ec f, linted = [],
                         published = [publishParams (updURI f) cur (ec f)]\<rparr>)))"

section \<open>The scope resolver\<close>

definition introduced :: "node \<Rightarrow> string list" where
  "introduced n =
     (case nodeBindings n of
        Local names \<Rightarrow> names
      | Function names \<Rightarrow> names
      | Object names \<Rightarrow> names
      | Comprehension names \<Rightarrow> names
      | ImportAlias names \<Rightarrow> names
      | NoBinder \<Rightarrow> [])"

text \<open>
  Modelled from the spec: \<open>analysis.StackVars\<close> (package \<open>analysis\<close> of this
  repository, not among the sources). "Fold the stack outer-to-inner: for each ancestor
  node that introduces bindings, add its introduced names to the map, with a later
  (inner) entry overwriting an earlier (outer) one of the same name." The map sends a
  name to the node that binds it.
\<close>

definition addNames :: "(string \<Rightarrow> node option) \<Rightarrow> node \<Rightarrow> (string \<Rightarrow> node option)" where
  "addNames m n = foldl (\<lambda>m' x. m'(x \<mapsto> n)) m (introduced n)"

definition StackVars :: "node list \<Rightarrow> (string \<Rightarrow> node option)" where
  "StackVars stk = foldl addNames (\<lambda>x. None) stk"

text \<open>
  Modelled from the spec: \<open>analysis.StackAtNode\<close> (same package). "Recompute the
  ancestor stack by structural search from that root to node": the nodes from the root
  down to the node, root first; empty when the node is not in the tree.
\<close>

fun StackAtNode :: "node \<Rightarrow> node \<Rightarrow> node list" where
  "StackAtNode (Node l b cs) target =
     (if Node l b cs = target then [Node l b cs]
      else
        (case filter (\<lambda>p. p \<noteq> []) (map (\<lambda>c. StackAtNode c target) cs) of
           [] \<Rightarrow> []
         | p # ps \<Rightarrow> Node l b cs # p))"

text \<open>
  \<open>valueResolver\<close>. \<open>getvm\<close> is the closure \<open>func() *vmCache { return s.getVM(uri) }\<close>
  (\<open>None\<close> for nil), a function of the server; the resolver's fields \<open>rootURI\<close> and
  \<open>vm\<close> are written \<open>resolverURI\<close> and \<open>resolverVM\<close> here.
\<close>

record valueResolver =
  resolverURI :: uri
  rootAST :: node
  stackCache :: "node \<Rightarrow> node list option"
  roots :: "string \<Rightarrow> node option"
  getvm :: "(Server \<Rightarrow> vmCache \<times> Server) option"
  resolverVM :: "vmCache option"

definition getCurrentAST :: "Server \<Rightarrow> uri \<Rightarrow> node option" where
  "getCurrentAST s u =
     (case overlay s u of
        None \<Rightarrow> None
      | Some parsed \<Rightarrow> (case Data parsed of None \<Rightarrow> None | Some res \<Rightarrow> Root res))"

definition NewResolver :: "Server \<Rightarrow> uri \<Rightarrow> valueResolver option" where
  "NewResolver s u =
     (case getCurrentAST s u of
        None \<Rightarrow> None
      | Some root \<Rightarrow>
          Some \<lparr>resolverURI = u, rootAST = root, stackCache = (\<lambda>n. None),
                roots = (\<lambda>f. None)(FileName (nodeLoc root) \<mapsto> root),
                getvm = Some (\<lambda>s'. getVM s' u), resolverVM = None\<rparr>)"

text \<open>The stack \<open>Vars\<close> folds: the cached one when it is not empty, else the search.\<close>

definition varsStack :: "valueResolver \<Rightarrow> node \<Rightarrow> node \<Rightarrow> node list" where
  "varsStack r root from_node =
     (case stackCache r from_node of
        Some stk \<Rightarrow> if 0 < length stk then stk else StackAtNode root from_node
      | None \<Rightarrow> StackAtNode root from_node)"

definition Vars :: "valueResolver \<Rightarrow> node \<Rightarrow> panic + (string \<Rightarrow> node option)" where
  "Vars r from_node =
     (case roots r (FileName (nodeLoc from_node)) of
        None \<Rightarrow> Inl NoRootImported
      | Some root \<Rightarrow> Inr (StackVars (varsStack r root from_node)))"

text \<open>\<open>vmCache.ImportAST\<close>: the tree (\<open>None\<close> for nil), the URI, the engine afterwards.\<close>

definition ImportAST :: "Lib \<Rightarrow> Server \<Rightarrow> vmCache \<Rightarrow> string \<Rightarrow> (node option \<times> uri) \<times> vmCache" where
  "ImportAST L s c path =
     (case VMImportAST L s c [] path of
        (Inl e, c') \<Rightarrow> ((None, []), c')
      | (Inr (n, foundAt), c') \<Rightarrow> ((Some n, File L foundAt), c'))"

text \<open>
  The resolver's engine and the server's slot are one Go pointer as long as the slot
  holds that engine: what an import does to the engine then shows in the slot too.
\<close>

definition writeBack :: "Server \<Rightarrow> vmCache \<Rightarrow> vmCache \<Rightarrow> Server" where
  "writeBack s c c' = (if vm s = Some c then s\<lparr>vm := Some c'\<rparr> else s)"

text \<open>
  \<open>valueResolver.Import\<close>: the tree it returns (\<open>None\<close> for nil), the server and the
  resolver afterwards.
\<close>

definition importWith ::
  "Lib \<Rightarrow> Server \<Rightarrow> valueResolver \<Rightarrow> vmCache \<Rightarrow> string \<Rightarrow> node option \<times> Server \<times> valueResolver" where
  "importWith L s r c path =
     (case ImportAST L s c path of
        ((None, u), c') \<Rightarrow> (None, writeBack s c c', r\<lparr>resolverVM := Some c'\<rparr>)
      | ((Some root, u), c') \<Rightarrow>
          (Some root, writeBack s c c',
           r\<lparr>resolverVM := Some c',
             roots := (roots r)(FileName (nodeLoc root) \<mapsto> root)\<rparr>))"

definition Import ::
  "Lib \<Rightarrow> Server \<Rightarrow> valueResolver \<Rightarrow> string \<Rightarrow> node option \<times> Server \<times> valueResolver" where
  "Import L s r path =
     (case resolverVM r of
        Some c \<Rightarrow> importWith L s r c path
      | None \<Rightarrow>
          (case getvm r of
             None \<Rightarrow> (None, s, r)
           | Some g \<Rightarrow> importWith L (snd (g s)) r (fst (g s)) path))"

section \<open>Slash-separated paths and file URIs\<close>

text \<open>
  An instance of the path and URI functions on slash-separated paths, as
  \<open>path/filepath\<close> computes them on Unix, to run the model on concrete workspaces:
  \<open>Clean\<close> drops empty and \<open>.\<close> elements and resolves \<open>..\<close>; \<open>Join\<close> cleans the
  non-empty elements joined by slashes; \<open>Dir\<close> cleans the text up to the last slash;
  \<open>Rel\<close> fails when only one of the two paths is absolute. A file URI is
  \<open>file://\<close>, a host that may be empty, and the path; its file name is the path.
\<close>

fun splitSlash :: "string \<Rightarrow> string list" where
  "splitSlash [] = [[]]"
| "splitSlash (c # cs) =
     (if c = CHR ''/'' then [] # splitSlash cs
      else (case splitSlash cs of [] \<Rightarrow> [[c]] | w # ws \<Rightarrow> (c # w) # ws))"

fun joinSlash :: "string list \<Rightarrow> string" where
  "joinSlash [] = []"
| "joinSlash [w] = w"
| "joinSlash (w # ws) = w @ ''/'' @ joinSlash ws"

fun cleanElems :: "bool \<Rightarrow> string list \<Rightarrow> string list \<Rightarrow> string list" where
  "cleanElems rooted out [] = rev out"
| "cleanElems rooted out (e # es) =
     (if e = [] \<or> e = ''.'' then cleanElems rooted out es
      else if e = ''..'' then
        (case out of
           [] \<Rightarrow> if rooted then cleanElems rooted out es else cleanElems rooted [e] es
         | l # ls \<Rightarrow> if l = ''..'' then cleanElems rooted (e # out) es
                     else cleanElems rooted ls es)
      else cleanElems rooted (e # out) es)"

definition posixIsAbs :: "string \<Rightarrow> bool" where
  "posixIsAbs p = (case p of [] \<Rightarrow> False | c # cs \<Rightarrow> c = CHR ''/'')"

definition posixClean :: "string \<Rightarrow> string" where
  "posixClean p =
     (let rooted = posixIsAbs p;
          r = (if rooted then ''/'' else []) @ joinSlash (cleanElems rooted [] (splitSlash p))
      in if r = [] then ''.'' else r)"

definition posixJoin :: "string list \<Rightarrow> string" where
  "posixJoin elems =
     (case dropWhile (\<lambda>e. e = []) elems of [] \<Rightarrow> [] | e # es \<Rightarrow> posixClean (joinSlash (e # es)))"

definition posixDir :: "string \<Rightarrow> string" where
  "posixDir p = posixClean (rev (dropWhile (\<lambda>c. c \<noteq> CHR ''/'') (rev p)))"

fun dropCommon :: "string list \<Rightarrow> string list \<Rightarrow> string list \<times> string list" where
  "dropCommon (b # bs) (t # ts) = (if b = t then dropCommon bs ts else (b # bs, t # ts))"
| "dropCommon bs ts = (bs, ts)"

definition pathElems :: "string \<Rightarrow> string list" where
  "pathElems p = filter (\<lambda>e. e \<noteq> []) (splitSlash p)"

definition posixRel :: "string \<Rightarrow> string \<Rightarrow> error + string" where
  "posixRel basepath targpath =
     (let base = posixClean basepath; targ = posixClean targpath
      in if targ = base then Inr ''.''
         else
           (let base = (if base = ''.'' then [] else base)
            in if posixIsAbs base \<noteq> posixIsAbs targ
               then Inl (OtherError (''Rel: cannot make '' @ targpath @ '' relative to '' @ basepath))
               else
                 (case dropCommon (pathElems base) (pathElems targ) of
                    (bs, ts) \<Rightarrow>
                      (case bs of
                         [] \<Rightarrow> Inr (joinSlash ts)
                       | b # bs' \<Rightarrow>
                           if b = ''..''
                           then Inl (OtherError (''Rel: cannot make '' @ targpath
                                                 @ '' relative to '' @ basepath))
                           else Inr (joinSlash (map (\<lambda>x. ''..'') bs @ ts))))))"

definition posixFile :: "string \<Rightarrow> uri" where
  "posixFile p = ''file://'' @ p"

definition posixFilename :: "uri \<Rightarrow> string" where
  "posixFilename u =
     (if take 7 u = ''file://'' then dropWhile (\<lambda>c. c \<noteq> CHR ''/'') (drop 7 u) else [])"

text \<open>A parser that reads nothing, an editor of texts that always panics, a silent
  linter and an engine that imports nothing complete the instance.\<close>

definition posixLib :: Lib where
  "posixLib =
     \<lparr>IsAbs = posixIsAbs, Rel = posixRel, Dir = posixDir, Join = posixJoin,
      File = posixFile, Filename = posixFilename,
      SnippetToAST = (\<lambda>name code. (None, Some (OtherError ''no parser''))),
      ApplyEdits = (\<lambda>doc edits. Inl TextEditPanic),
      LintSnippet = (\<lambda>c snippet. []),
      VMImportAST = (\<lambda>s c importedFrom path. (Inl (OtherError ''no engine''), c))\<rparr>"

section \<open>Concrete workspaces\<close>

text \<open>A file system from a list of (path, text): \<open>fs.ReadFile\<close> fails on any other path.\<close>

definition fsOf :: "(string \<times> string) list \<Rightarrow> string \<Rightarrow> error + string" where
  "fsOf files path =
     (case map_of files path of
        Some text \<Rightarrow> Inr text
      | None \<Rightarrow> Inl (OtherError (''open '' @ path @ '': file does not exist'')))"

text \<open>
  The workspace of the spec's scenario: root \<open>/root\<close>, search directory \<open>vendor\<close>,
  and \<open>/root/sub/lib.jsonnet\<close> the only file.
\<close>

definition scenarioServer :: Server where
  "scenarioServer =
     \<lparr>rootURI = ''file:///root'',
      rootFS = fsOf [(''sub/lib.jsonnet'', ''{ x: 1 }'')],
      searchPaths = [''vendor''],
      overlay = (\<lambda>u. None),
      vm = None\<rparr>"

text \<open>
  The workspace of the candidate-order property: the same file name at the root, in
  the importer's directory two levels down, and in the search directory.
\<close>

definition orderServer :: Server where
  "orderServer =
     \<lparr>rootURI = ''file:///root'',
      rootFS = fsOf [(''lib.jsonnet'', ''at root''), (''a/b/lib.jsonnet'', ''at importer''),
                     (''vendor/lib.jsonnet'', ''at vendor'')],
      searchPaths = [''vendor''],
      overlay = (\<lambda>u. None),
      vm = None\<rparr>"

text \<open>What a cache entry gives back on a hit of the importer.\<close>

definition cachedResult :: "Lib \<Rightarrow> foundCacheItem \<Rightarrow> Contents \<times> string \<times> error option" where
  "cachedResult L item =
     (case err item of
        Some e \<Rightarrow> (ContentsZero, [], Some e)
      | None \<Rightarrow> (contents item, Filename L (uri item), None))"


text \<open>
  The scenario's workspace with an engine in the slot that was made for
  \<open>/root/a.jsonnet\<close> and has cached \<open>lib.jsonnet\<close> as found.
\<close>

definition switchServer :: Server where
  "switchServer =
     scenarioServer\<lparr>vm := Some
       \<lparr>vmFrom = ''file:///root/a.jsonnet'',
        vmImporter =
          \<lparr>importerFrom = ''file:///root/a.jsonnet'',
           cache = (\<lambda>p. None)(''lib.jsonnet'' \<mapsto>
             \<lparr>err = None, contents = MakeContentsRaw ''{ x: 1 }'',
              uri = ''file:///root/lib.jsonnet''\<rparr>)\<rparr>\<rparr>\<rparr>"

text \<open>The scenario's workspace with \<open>/root/vendor/lib.jsonnet\<close> as its only file.\<close>

definition vendorServer :: Server where
  "vendorServer = scenarioServer\<lparr>rootFS := fsOf [(''vendor/lib.jsonnet'', ''at vendor'')]\<rparr>"

section \<open>Diagnostics of a lint run, and concrete parsers\<close>

text \<open>
  The diagnostics a lint run adds for the errors it reports, in the words of the spec:
  a finding (a located static error of the document's file) at warning severity, a
  runtime failure at error severity at the first frame of its stack, nothing for any
  other error.
\<close>

fun lintDiagnostics :: "Lib \<Rightarrow> uri \<Rightarrow> error list \<Rightarrow> Diagnostic list" where
  "lintDiagnostics L u [] = []"
| "lintDiagnostics L u (StaticError msg l # ers) =
     (if FileName l = Filename L u
      then [\<lparr>Range = rangeToProto l, Severity = DiagnosticSeverityWarning,
             Source = ''jsonnet'', Message = msg\<rparr>]
      else []) @ lintDiagnostics L u ers"
| "lintDiagnostics L u (RuntimeError st msg # ers) =
     (case st of
        [] \<Rightarrow> []
      | frame # rest \<Rightarrow>
          [\<lparr>Range = rangeToProto (Loc frame), Severity = DiagnosticSeverityError,
            Source = ''jsonnet'', Message = msg\<rparr>]) @ lintDiagnostics L u ers"
| "lintDiagnostics L u (OtherError msg # ers) = lintDiagnostics L u ers"

text \<open>
  A parser and an editor for concrete runs. The parser knows two texts that jsonnet
  accepts, \<open>local x = 1; x\<close> and \<open>{ a: 1, b: 2 }\<close>, and refuses every other
  text, among them \<open>local x = 1 x\<close> and \<open>{ a: 1 b: 2 }\<close>, each one delimiter
  short, and the texts \<open>local x = 1 x;\<close>, \<open>local x = 1 x,\<close> and
  \<open>{ a: 1; b: 2 }\<close>. The editor applies one edit that inserts on line 1, at a
  column within the text or right after it, and panics otherwise.
\<close>

definition scenarioTree :: node where
  "scenarioTree =
     Node \<lparr>FileName = ''/root/a.jsonnet'', Begin = \<lparr>Line = 1, Column = 1\<rparr>,
            End = \<lparr>Line = 1, Column = 15\<rparr>\<rparr> (Local [''x''])
       [Node \<lparr>FileName = ''/root/a.jsonnet'', Begin = \<lparr>Line = 1, Column = 11\<rparr>,
               End = \<lparr>Line = 1, Column = 12\<rparr>\<rparr> NoBinder [],
        Node \<lparr>FileName = ''/root/a.jsonnet'', Begin = \<lparr>Line = 1, Column = 14\<rparr>,
               End = \<lparr>Line = 1, Column = 15\<rparr>\<rparr> NoBinder []]"

definition objectTree :: node where
  "objectTree =
     Node \<lparr>FileName = ''/root/a.jsonnet'', Begin = \<lparr>Line = 1, Column = 1\<rparr>,
            End = \<lparr>Line = 1, Column = 15\<rparr>\<rparr> (Object [''a'', ''b''])
       [Node \<lparr>FileName = ''/root/a.jsonnet'', Begin = \<lparr>Line = 1, Column = 6\<rparr>,
               End = \<lparr>Line = 1, Column = 7\<rparr>\<rparr> NoBinder [],
        Node \<lparr>FileName = ''/root/a.jsonnet'', Begin = \<lparr>Line = 1, Column = 12\<rparr>,
               End = \<lparr>Line = 1, Column = 13\<rparr>\<rparr> NoBinder []]"

definition scenarioError :: error where
  "scenarioError =
     StaticError ''expected , or ;''
       \<lparr>FileName = ''/root/a.jsonnet'', Begin = \<lparr>Line = 1, Column = 13\<rparr>,
         End = \<lparr>Line = 1, Column = 14\<rparr>\<rparr>"

definition scenarioParser :: "string \<Rightarrow> string \<Rightarrow> node option \<times> error option" where
  "scenarioParser name code =
     (if code = ''local x = 1; x'' then (Some scenarioTree, None)
      else if code = ''{ a: 1, b: 2 }'' then (Some objectTree, None)
      else (None, Some scenarioError))"

definition lineOneEdits :: "string \<Rightarrow> TextEdit list \<Rightarrow> panic + string" where
  "lineOneEdits doc edits =
     (case edits of
        [edit] \<Rightarrow>
          (let pt = SpanStart (EditSpan edit)
           in if SpanEnd (EditSpan edit) = pt \<and> PtLine pt = 1 \<and> 1 \<le> PtColumn pt
                 \<and> PtColumn pt \<le> int (length doc) + 1
              then Inr (take (nat (PtColumn pt - 1)) doc @ NewText edit
                        @ drop (nat (PtColumn pt - 1)) doc)
              else Inl TextEditPanic)
      | _ \<Rightarrow> Inl TextEditPanic)"

definition scenarioLib :: Lib where
  "scenarioLib = posixLib\<lparr>SnippetToAST := scenarioParser, ApplyEdits := lineOneEdits\<rparr>"






text \<open>
  A linter for concrete runs: it reports an unused variable in the document, a runtime
  failure whose first frame lies in an imported file, and an error of another shape.
\<close>

definition lintFindings :: "error list" where
  "lintFindings =
     [StaticError ''unused variable: x''
        \<lparr>FileName = ''/root/a.jsonnet'', Begin = \<lparr>Line = 1, Column = 7\<rparr>,
          End = \<lparr>Line = 1, Column = 8\<rparr>\<rparr>,
      RuntimeError
        [\<lparr>Loc = \<lparr>FileName = ''/root/lib.jsonnet'', Begin = \<lparr>Line = 2, Column = 3\<rparr>,
                 End = \<lparr>Line = 2, Column = 9\<rparr>\<rparr>, Name = ''f''\<rparr>]
        ''boom'',
      OtherError ''odd'']"

definition lintLib :: Lib where
  "lintLib = scenarioLib\<lparr>LintSnippet := (\<lambda>c snippet. lintFindings)\<rparr>"

text \<open>Overlay entries of \<open>/root/a.jsonnet\<close>: one that parsed, one that did not
  parse and was recovered.\<close>

definition parsedEntry :: "int \<Rightarrow> Entry" where
  "parsedEntry v =
     \<lparr>Version = v, Contents = ''local x = 1; x'',
      Data = Some \<lparr>Root = Some scenarioTree, Err = None\<rparr>\<rparr>"

definition recoveredEntry :: "int \<Rightarrow> Entry" where
  "recoveredEntry v =
     \<lparr>Version = v, Contents = ''local x = 1 x'',
      Data = Some \<lparr>Root = Some scenarioTree, Err = Some scenarioError\<rparr>\<rparr>"

section \<open>Concrete trees and sessions\<close>

text \<open>
  A document \<open>/root/a.jsonnet\<close> whose outer scope binds \<open>x\<close> and \<open>z\<close>, with a
  function inside that binds \<open>x\<close> and \<open>y\<close>, and a query node in the function's
  body; and an imported file \<open>/root/sub/lib.jsonnet\<close>.
\<close>

definition queryNode :: node where
  "queryNode =
     Node \<lparr>FileName = ''/root/a.jsonnet'', Begin = \<lparr>Line = 2, Column = 20\<rparr>,
            End = \<lparr>Line = 2, Column = 21\<rparr>\<rparr> NoBinder []"

definition innerNode :: node where
  "innerNode =
     Node \<lparr>FileName = ''/root/a.jsonnet'', Begin = \<lparr>Line = 2, Column = 1\<rparr>,
            End = \<lparr>Line = 2, Column = 30\<rparr>\<rparr> (Function [''x'', ''y'']) [queryNode]"

definition outerNode :: node where
  "outerNode =
     Node \<lparr>FileName = ''/root/a.jsonnet'', Begin = \<lparr>Line = 1, Column = 1\<rparr>,
            End = \<lparr>Line = 3, Column = 1\<rparr>\<rparr> (Local [''x'', ''z''])
       [Node \<lparr>FileName = ''/root/a.jsonnet'', Begin = \<lparr>Line = 1, Column = 11\<rparr>,
               End = \<lparr>Line = 1, Column = 12\<rparr>\<rparr> NoBinder [],
        innerNode]"

definition libTree :: node where
  "libTree =
     Node \<lparr>FileName = ''/root/sub/lib.jsonnet'', Begin = \<lparr>Line = 1, Column = 1\<rparr>,
            End = \<lparr>Line = 1, Column = 9\<rparr>\<rparr> (Object [''f'']) []"

definition shadowServer :: Server where
  "shadowServer =
     scenarioServer\<lparr>overlay := (\<lambda>u. if u = ''file:///root/a.jsonnet''
        then Some \<lparr>Version = 1, Contents = ''local x = 1, z = 2; function(x, y) x'',
                   Data = Some \<lparr>Root = Some outerNode, Err = None\<rparr>\<rparr>
        else None)\<rparr>"

text \<open>An engine for concrete runs that imports \<open>lib.jsonnet\<close> and nothing else.\<close>

definition importLib :: Lib where
  "importLib =
     posixLib\<lparr>VMImportAST := (\<lambda>s c importedFrom path.
        if path = ''lib.jsonnet'' then (Inr (libTree, ''/root/sub/lib.jsonnet''), c)
        else (Inl (OtherError ''not found''), c))\<rparr>"

section \<open>Position conversion: proofs\<close>

lemma uint_widen_succ: "uint ((ucast (w :: 32 word) :: 64 word) + 1) = uint w + 1"
proof -
  have a: "uint (ucast w :: 64 word) = uint w"
    by (simp add: uint_up_ucast is_up)
  have b: "uint w < 2 ^ 32"
    using uint_lt2p [of w] by simp
  have "uint ((ucast w :: 64 word) + 1) = (uint w + 1) mod 2 ^ 64"
    by (simp add: uint_word_ariths a)
  also have "\<dots> = uint w + 1"
    using b by simp
  finally show ?thesis .
qed

lemma sint_widen_succ: "sint ((ucast (w :: 32 word) :: 64 word) + 1) = uint w + 1"
proof -
  have b: "uint w < 2 ^ 32"
    using uint_lt2p [of w] by simp
  have c: "0 \<le> uint w"
    by simp
  show ?thesis
    unfolding sint_uint uint_widen_succ
    using b c by (simp add: signed_take_bit_int_eq_self)
qed

lemma widen_succ_positive: "0 <s ((ucast (w :: 32 word) :: 64 word) + 1)"
  by (simp add: word_sless_alt sint_widen_succ)

lemma uint_of_nonneg_sint:
  assumes "0 \<le> sint (x :: 64 word)"
  shows "uint x = sint x"
proof -
  have "sint x < 2 ^ 64"
    using sint_lt [of x] by simp
  then have "take_bit 64 (sint x) = sint x"
    using assms by (simp add: take_bit_int_eq_self)
  then show ?thesis
    using uint_sint [of x] by simp
qed

lemma narrow_pred_widen_succ:
  assumes "1 \<le> sint (x :: 64 word)" and "sint x \<le> 2 ^ 32"
  shows "(ucast (ucast (x - 1) :: 32 word) :: 64 word) + 1 = x"
proof -
  have u: "uint x = sint x"
    using assms by (simp add: uint_of_nonneg_sint)
  have "uint (x - 1) = (uint x - 1) mod 2 ^ 64"
    by (simp add: uint_word_ariths)
  also have "\<dots> = uint x - 1"
    using u assms by simp
  finally have d: "uint (x - 1) = uint x - 1" .
  have "uint (ucast (ucast (x - 1) :: 32 word) :: 64 word) = uint (ucast (x - 1) :: 32 word)"
    by (simp add: uint_up_ucast is_up)
  also have "\<dots> = take_bit 32 (uint (x - 1))"
    by (simp add: unsigned_ucast_eq)
  also have "\<dots> = uint x - 1"
    unfolding d using u assms by (simp add: take_bit_int_eq_self)
  finally have "uint (ucast (ucast (x - 1) :: 32 word) :: 64 word) = uint (x - 1)"
    using d by simp
  then have "(ucast (ucast (x - 1) :: 32 word) :: 64 word) = x - 1"
    by (simp add: word_uint_eq_iff)
  then show ?thesis
    by simp
qed

lemma positive_iff_sint: "(0 <s (x :: 64 word)) = (0 < sint x)"
  by (simp add: word_sless_alt)

text \<open>
  C10 (as amended). \<open>posToProto\<close> subtracts one from a line or column only when it
  is positive, so an unset (zero) line or column stays 0 and nothing wraps below zero.
  The converters are mutually inverse on these ranges: for a location whose line and
  column are both between 1 and \<open>2^32\<close>, \<open>protoToPos (posToProto loc) = loc\<close>; and
  for every editor position \<open>p\<close>, \<open>posToProto (protoToPos p) = p\<close>.
\<close>

theorem posToProto_protoToPos_inverse:
  "(Line loc = 0 \<longrightarrow> PLine (posToProto loc) = 0)
   \<and> (Column loc = 0 \<longrightarrow> Character (posToProto loc) = 0)
   \<and> (0 < sint (Line loc) \<longrightarrow> PLine (posToProto loc) = ucast (Line loc - 1))
   \<and> (0 < sint (Column loc) \<longrightarrow> Character (posToProto loc) = ucast (Column loc - 1))
   \<and> (1 \<le> sint (Line loc) \<and> sint (Line loc) \<le> 2 ^ 32
        \<and> 1 \<le> sint (Column loc) \<and> sint (Column loc) \<le> 2 ^ 32
        \<longrightarrow> protoToPos (posToProto loc) = loc)
   \<and> posToProto (protoToPos p) = p"
proof -
  have z1: "Line loc = 0 \<longrightarrow> PLine (posToProto loc) = 0"
    by (simp add: posToProto_def Let_def)
  have z2: "Column loc = 0 \<longrightarrow> Character (posToProto loc) = 0"
    by (simp add: posToProto_def Let_def)
  have d1: "0 < sint (Line loc) \<longrightarrow> PLine (posToProto loc) = ucast (Line loc - 1)"
    by (simp add: posToProto_def Let_def positive_iff_sint)
  have d2: "0 < sint (Column loc) \<longrightarrow> Character (posToProto loc) = ucast (Column loc - 1)"
    by (simp add: posToProto_def Let_def positive_iff_sint)
  have rt1: "protoToPos (posToProto loc) = loc"
    if h: "1 \<le> sint (Line loc) \<and> sint (Line loc) \<le> 2 ^ 32
        \<and> 1 \<le> sint (Column loc) \<and> sint (Column loc) \<le> 2 ^ 32"
  proof -
    have pl: "0 <s Line loc" and pc: "0 <s Column loc"
      using h by (simp_all add: positive_iff_sint)
    have l: "(ucast (ucast (Line loc - 1) :: 32 word) :: 64 word) + 1 = Line loc"
      using h by (intro narrow_pred_widen_succ) simp_all
    have c: "(ucast (ucast (Column loc - 1) :: 32 word) :: 64 word) + 1 = Column loc"
      using h by (intro narrow_pred_widen_succ) simp_all
    show ?thesis
      using pl pc l c by (simp add: posToProto_def protoToPos_def Let_def)
  qed
  have rt2: "posToProto (protoToPos p) = p"
    by (simp add: posToProto_def protoToPos_def Let_def widen_succ_positive
        ucast_up_ucast_id is_up)
  show ?thesis
    using z1 z2 d1 d2 rt1 rt2 by blast
qed

theorem posToProto_protoToPos_inverse_witness:
  "PLine (posToProto \<lparr>Line = 0, Column = 0\<rparr>) = 0
   \<and> Character (posToProto \<lparr>Line = 0, Column = 0\<rparr>) = 0
   \<and> posToProto \<lparr>Line = 3, Column = 7\<rparr> = \<lparr>PLine = 2, Character = 6\<rparr>
   \<and> protoToPos (posToProto \<lparr>Line = 3, Column = 7\<rparr>) = \<lparr>Line = 3, Column = 7\<rparr>
   \<and> protoToPos (posToProto \<lparr>Line = 4294967296, Column = 1\<rparr>)
       = \<lparr>Line = 4294967296, Column = 1\<rparr>"
  using posToProto_protoToPos_inverse [of "\<lparr>Line = 0, Column = 0\<rparr>"]
    posToProto_protoToPos_inverse [of "\<lparr>Line = 3, Column = 7\<rparr>"]
    posToProto_protoToPos_inverse [of "\<lparr>Line = 4294967296, Column = 1\<rparr>"]
  by (simp add: posToProto_def word_sless_alt)

text \<open>
  The claim as first stated asks the round trip of every location with line and
  column at least 1. Line \<open>2^32 + 1\<close> is such a location: its low 32 bits after the
  decrement are 0, and the way back gives line 1.
\<close>

theorem posToProto_truncates_counterexample:
  "1 \<le> sint (Line \<lparr>Line = 4294967297, Column = 1\<rparr>)
   \<and> 1 \<le> sint (Column \<lparr>Line = 4294967297, Column = 1\<rparr>)
   \<and> protoToPos (posToProto \<lparr>Line = 4294967297, Column = 1\<rparr>) = \<lparr>Line = 1, Column = 1\<rparr>
   \<and> protoToPos (posToProto \<lparr>Line = 4294967297, Column = 1\<rparr>)
       \<noteq> \<lparr>Line = 4294967297, Column = 1\<rparr>"
  by (simp add: posToProto_def protoToPos_def word_sless_alt)

section \<open>Diagnostics by error shape\<close>

lemma Collect_empty_stack_panics:
  "Collect L e (RuntimeError [] msg) sev = Inl IndexOutOfRange"
  by (simp add: Collect_def)

text \<open>
  C7. For every error handed to \<open>Collect\<close>: a located static error adds a diagnostic
  if and only if its file name equals the file name of the collector's URI (the
  document under update), at the severity given; a runtime error whose stack trace
  has a first frame always adds one diagnostic, at that frame's location whatever its
  file, at error severity; an error of any other shape adds no diagnostic and is only
  logged.
\<close>

theorem Collect_by_error_shape:
  "Collect L e (StaticError msg l) sev =
     Inr (if FileName l = Filename L (URI e)
          then e\<lparr>Diags := Diags e @
                 [\<lparr>Range = rangeToProto l, Severity = sev, Source = ''jsonnet'', Message = msg\<rparr>]\<rparr>
          else e, [])
   \<and> ((\<exists>d. Collect L e (StaticError msg l) sev = Inr (e\<lparr>Diags := Diags e @ [d]\<rparr>, []))
        = (FileName l = Filename L (URI e)))
   \<and> Collect L e (RuntimeError (frame # rest) msg) sev =
       Inr (e\<lparr>Diags := Diags e @
              [\<lparr>Range = rangeToProto (Loc frame), Severity = DiagnosticSeverityError,
                Source = ''jsonnet'', Message = msg\<rparr>]\<rparr>, [])
   \<and> Collect L e (OtherError msg) sev = Inr (e, [OtherError msg])"
proof -
  have ne: "e\<lparr>Diags := Diags e @ [d]\<rparr> \<noteq> e" for d
  proof
    assume "e\<lparr>Diags := Diags e @ [d]\<rparr> = e"
    then have "Diags (e\<lparr>Diags := Diags e @ [d]\<rparr>) = Diags e"
      by simp
    then show False
      by simp
  qed
  have ne': "e \<noteq> e\<lparr>Diags := Diags e @ [d]\<rparr>" for d
    using ne [of d] by (rule not_sym)
  show ?thesis
    using ne ne' by (auto simp: Collect_def)
qed

theorem Collect_by_error_shape_witness:
  "Diags (fst (projr (Collect posixLib \<lparr>URI = ''file:///root/a.jsonnet'', Diags = []\<rparr>
      (StaticError ''unexpected end of file''
         \<lparr>FileName = ''/root/a.jsonnet'', Begin = \<lparr>Line = 1, Column = 28\<rparr>,
           End = \<lparr>Line = 1, Column = 31\<rparr>\<rparr>) DiagnosticSeverityError)))
     = [\<lparr>Range = \<lparr>Start = \<lparr>PLine = 0, Character = 27\<rparr>, REnd = \<lparr>PLine = 0, Character = 30\<rparr>\<rparr>,
         Severity = DiagnosticSeverityError, Source = ''jsonnet'',
         Message = ''unexpected end of file''\<rparr>]
   \<and> Diags (fst (projr (Collect posixLib \<lparr>URI = ''file:///root/a.jsonnet'', Diags = []\<rparr>
      (StaticError ''unexpected end of file''
         \<lparr>FileName = ''/root/lib.jsonnet'', Begin = \<lparr>Line = 1, Column = 28\<rparr>,
           End = \<lparr>Line = 1, Column = 31\<rparr>\<rparr>) DiagnosticSeverityError))) = []
   \<and> Diags (fst (projr (Collect posixLib \<lparr>URI = ''file:///root/a.jsonnet'', Diags = []\<rparr>
      (RuntimeError
         [\<lparr>Loc = \<lparr>FileName = ''/root/lib.jsonnet'', Begin = \<lparr>Line = 2, Column = 3\<rparr>,
                  End = \<lparr>Line = 2, Column = 9\<rparr>\<rparr>, Name = ''f''\<rparr>]
         ''boom'') DiagnosticSeverityWarning)))
     = [\<lparr>Range = \<lparr>Start = \<lparr>PLine = 1, Character = 2\<rparr>, REnd = \<lparr>PLine = 1, Character = 8\<rparr>\<rparr>,
         Severity = DiagnosticSeverityError, Source = ''jsonnet'', Message = ''boom''\<rparr>]
   \<and> Collect posixLib \<lparr>URI = ''file:///root/a.jsonnet'', Diags = []\<rparr>
        (OtherError ''odd'') DiagnosticSeverityWarning
     = Inr (\<lparr>URI = ''file:///root/a.jsonnet'', Diags = []\<rparr>, [OtherError ''odd''])"
  using Collect_by_error_shape [where L = posixLib
      and e = "\<lparr>URI = ''file:///root/a.jsonnet'', Diags = []\<rparr>"
      and msg = "''unexpected end of file''"
      and l = "\<lparr>FileName = ''/root/a.jsonnet'', Begin = \<lparr>Line = 1, Column = 28\<rparr>,
           End = \<lparr>Line = 1, Column = 31\<rparr>\<rparr>" and sev = DiagnosticSeverityError]
    Collect_by_error_shape [where L = posixLib
      and e = "\<lparr>URI = ''file:///root/a.jsonnet'', Diags = []\<rparr>"
      and msg = "''unexpected end of file''"
      and l = "\<lparr>FileName = ''/root/lib.jsonnet'', Begin = \<lparr>Line = 1, Column = 28\<rparr>,
           End = \<lparr>Line = 1, Column = 31\<rparr>\<rparr>" and sev = DiagnosticSeverityError]
    Collect_by_error_shape [where L = posixLib
      and e = "\<lparr>URI = ''file:///root/a.jsonnet'', Diags = []\<rparr>"
      and msg = "''boom''" and sev = DiagnosticSeverityWarning
      and frame = "\<lparr>Loc = \<lparr>FileName = ''/root/lib.jsonnet'', Begin = \<lparr>Line = 2, Column = 3\<rparr>,
                  End = \<lparr>Line = 2, Column = 9\<rparr>\<rparr>, Name = ''f''\<rparr>" and rest = "[]"]
    Collect_by_error_shape [where L = posixLib
      and e = "\<lparr>URI = ''file:///root/a.jsonnet'', Diags = []\<rparr>"
      and msg = "''odd''" and sev = DiagnosticSeverityWarning]
  by (simp add: posixLib_def posixFilename_def rangeToProto_def posToProto_def word_sless_alt)

section \<open>The one-engine cache\<close>

text \<open>
  C3. \<open>getVM s u\<close> returns the engine held in the slot exactly when the slot holds
  one whose origin URI equals \<open>u\<close>, and then the server is unchanged; otherwise the
  engine it returns is a new one bound to \<open>u\<close> whose importer cache is empty. Either
  way the slot afterwards holds the returned engine and no other, so the previous
  engine is gone from it; and on the new engine an import of any path calls
  \<open>readPath\<close> again, whatever a previous engine had cached for it.
\<close>

theorem getVM_single_engine:
  "vm (snd (getVM s u)) = Some (fst (getVM s u))
   \<and> vmFrom (fst (getVM s u)) = u
   \<and> ((vm s = Some (fst (getVM s u))) = (\<exists>c. vm s = Some c \<and> vmFrom c = u))
   \<and> ((\<exists>c. vm s = Some c \<and> vmFrom c = u) \<longrightarrow> snd (getVM s u) = s)
   \<and> (\<not> (\<exists>c. vm s = Some c \<and> vmFrom c = u) \<longrightarrow>
        fst (getVM s u) = \<lparr>vmFrom = u, vmImporter = newImporter u\<rparr>
        \<and> cache (vmImporter (fst (getVM s u))) p = None
        \<and> snd (snd (importerCall L s' (vmImporter (fst (getVM s u))) f p)) = [(p, u)])"
  by (auto simp: getVM_def newImporter_def importerCall_def split: option.splits sum.splits)

theorem getVM_single_engine_witness:
  "\<not> (\<exists>c. vm switchServer = Some c \<and> vmFrom c = ''file:///root/b.jsonnet'')
   \<and> vmFrom (fst (getVM switchServer ''file:///root/b.jsonnet'')) = ''file:///root/b.jsonnet''
   \<and> vm (snd (getVM switchServer ''file:///root/b.jsonnet''))
       = Some (fst (getVM switchServer ''file:///root/b.jsonnet''))
   \<and> vm switchServer \<noteq> Some (fst (getVM switchServer ''file:///root/b.jsonnet''))
   \<and> cache (vmImporter (fst (getVM switchServer ''file:///root/b.jsonnet''))) ''lib.jsonnet'' = None
   \<and> snd (snd (importerCall posixLib switchServer
          (vmImporter (fst (getVM switchServer ''file:///root/b.jsonnet''))) [] ''lib.jsonnet''))
       = [(''lib.jsonnet'', ''file:///root/b.jsonnet'')]
   \<and> (\<exists>c. vm switchServer = Some c \<and> vmFrom c = ''file:///root/a.jsonnet'')
   \<and> vm switchServer = Some (fst (getVM switchServer ''file:///root/a.jsonnet''))
   \<and> (\<exists>item. cache (vmImporter (fst (getVM switchServer ''file:///root/a.jsonnet''))) ''lib.jsonnet''
        = Some item)"
proof -
  have no: "\<not> (\<exists>c. vm switchServer = Some c \<and> vmFrom c = ''file:///root/b.jsonnet'')"
    by (simp add: switchServer_def)
  have yes: "\<exists>c. vm switchServer = Some c \<and> vmFrom c = ''file:///root/a.jsonnet''"
    by (simp add: switchServer_def)
  have kept: "vm switchServer = Some (fst (getVM switchServer ''file:///root/a.jsonnet''))"
    using yes getVM_single_engine [where s = switchServer and u = "''file:///root/a.jsonnet''"] by blast
  have item: "\<exists>item. cache (vmImporter (fst (getVM switchServer ''file:///root/a.jsonnet''))) ''lib.jsonnet''
        = Some item"
    by (simp add: getVM_def switchServer_def)
  show ?thesis
    using no yes kept item
      getVM_single_engine [where s = switchServer and u = "''file:///root/b.jsonnet''"
        and p = "''lib.jsonnet''" and L = posixLib and s' = switchServer and f = "[]"]
    by blast
qed

section \<open>The importer's cache\<close>

lemma importerCall_hit:
  "cache imp p = Some item \<Longrightarrow> importerCall L s imp f p = (cachedResult L item, imp, [])"
  by (simp add: importerCall_def cachedResult_def split: option.splits)

lemma importerCall_stores:
  "\<exists>item. cache (fst (snd (importerCall L s imp f p))) p = Some item
     \<and> cachedResult L item = fst (importerCall L s imp f p)"
proof (cases "cache imp p")
  case (Some item)
  then show ?thesis
    by (simp add: importerCall_hit)
next
  case None
  show ?thesis
  proof (cases "readPath L s p (importerFrom imp)")
    case (Inl e)
    then show ?thesis
      using None by (simp add: importerCall_def cachedResult_def)
  next
    case (Inr found)
    then show ?thesis
      using None by (cases found) (simp add: importerCall_def cachedResult_def)
  qed
qed

lemma importerCall_keeps:
  "cache imp p = Some item \<Longrightarrow> cache (fst (snd (importerCall L s imp f q))) p = Some item"
  by (auto simp: importerCall_def split: option.splits sum.splits)

lemma importerCalls_keeps:
  "cache imp p = Some item \<Longrightarrow> cache (importerCalls L imp cs) p = Some item"
proof (induction cs arbitrary: imp)
  case Nil
  then show ?case by simp
next
  case (Cons c cs)
  obtain s f q where c: "c = (s, f, q)"
    by (cases c) auto
  have "cache (fst (snd (importerCall L s imp f q))) p = Some item"
    using Cons.prems by (rule importerCall_keeps)
  then show ?case
    using Cons.IH c by simp
qed

text \<open>
  C4. For every importer (any cache) and every import path \<open>p\<close>: after a first call
  with \<open>p\<close>, any later call with \<open>p\<close>, after any run of further importer calls and
  whatever the server has become, returns the first call's result triple (contents,
  found-at path, error), leaves the cache as it is and calls \<open>readPath\<close> not once.
  A first call that misses the cache calls \<open>readPath\<close> once; when that fails the
  cache gets a negative entry holding the error, and when it succeeds a positive entry
  holding contents and resolved URI, in both cases under the import path string itself.
\<close>

theorem importerCall_repeats_first_outcome:
  "importerCall L s' (importerCalls L (fst (snd (importerCall L s imp f p))) cs) f' p
     = (fst (importerCall L s imp f p),
        importerCalls L (fst (snd (importerCall L s imp f p))) cs, [])
   \<and> (cache imp p = None \<longrightarrow>
        snd (snd (importerCall L s imp f p)) = [(p, importerFrom imp)])
   \<and> (cache imp p = None \<longrightarrow> readPath L s p (importerFrom imp) = Inl e \<longrightarrow>
        fst (importerCall L s imp f p) = (ContentsZero, [], Some e)
        \<and> cache (fst (snd (importerCall L s imp f p))) p
            = Some \<lparr>err = Some e, contents = ContentsZero, uri = []\<rparr>)
   \<and> (cache imp p = None \<longrightarrow> readPath L s p (importerFrom imp) = Inr (data, found) \<longrightarrow>
        fst (importerCall L s imp f p) = (MakeContentsRaw data, Filename L found, None)
        \<and> cache (fst (snd (importerCall L s imp f p))) p
            = Some \<lparr>err = None, contents = MakeContentsRaw data, uri = found\<rparr>)"
proof -
  obtain item where i: "cache (fst (snd (importerCall L s imp f p))) p = Some item"
    and r: "cachedResult L item = fst (importerCall L s imp f p)"
    using importerCall_stores by blast
  have "cache (importerCalls L (fst (snd (importerCall L s imp f p))) cs) p = Some item"
    using i by (rule importerCalls_keeps)
  then have a: "importerCall L s' (importerCalls L (fst (snd (importerCall L s imp f p))) cs) f' p
     = (fst (importerCall L s imp f p),
        importerCalls L (fst (snd (importerCall L s imp f p))) cs, [])"
    using r by (simp add: importerCall_hit)
  have b: "cache imp p = None \<longrightarrow>
        snd (snd (importerCall L s imp f p)) = [(p, importerFrom imp)]"
    by (auto simp: importerCall_def split: sum.splits)
  have c: "cache imp p = None \<longrightarrow> readPath L s p (importerFrom imp) = Inl e \<longrightarrow>
        fst (importerCall L s imp f p) = (ContentsZero, [], Some e)
        \<and> cache (fst (snd (importerCall L s imp f p))) p
            = Some \<lparr>err = Some e, contents = ContentsZero, uri = []\<rparr>"
    by (simp add: importerCall_def)
  have d: "cache imp p = None \<longrightarrow> readPath L s p (importerFrom imp) = Inr (data, found) \<longrightarrow>
        fst (importerCall L s imp f p) = (MakeContentsRaw data, Filename L found, None)
        \<and> cache (fst (snd (importerCall L s imp f p))) p
            = Some \<lparr>err = None, contents = MakeContentsRaw data, uri = found\<rparr>"
    by (simp add: importerCall_def)
  show ?thesis
    using a b c d by blast
qed

theorem importerCall_repeats_first_outcome_witness:
  "cache (newImporter ''file:///root/sub/main.jsonnet'') ''missing.jsonnet'' = None
   \<and> snd (snd (importerCall posixLib scenarioServer
          (newImporter ''file:///root/sub/main.jsonnet'') [] ''missing.jsonnet''))
       = [(''missing.jsonnet'', ''file:///root/sub/main.jsonnet'')]
   \<and> (\<exists>e. fst (importerCall posixLib scenarioServer
          (newImporter ''file:///root/sub/main.jsonnet'') [] ''missing.jsonnet'')
       = (ContentsZero, [], Some e))
   \<and> importerCall posixLib scenarioServer
        (fst (snd (importerCall posixLib scenarioServer
           (newImporter ''file:///root/sub/main.jsonnet'') [] ''missing.jsonnet''))) [] ''missing.jsonnet''
       = (fst (importerCall posixLib scenarioServer
            (newImporter ''file:///root/sub/main.jsonnet'') [] ''missing.jsonnet''),
          fst (snd (importerCall posixLib scenarioServer
            (newImporter ''file:///root/sub/main.jsonnet'') [] ''missing.jsonnet'')), [])
   \<and> fst (importerCall posixLib scenarioServer
          (newImporter ''file:///root/sub/main.jsonnet'') [] ''lib.jsonnet'')
       = (MakeContentsRaw ''{ x: 1 }'', ''/root/sub/lib.jsonnet'', None)
   \<and> importerCall posixLib vendorServer
        (fst (snd (importerCall posixLib scenarioServer
           (newImporter ''file:///root/sub/main.jsonnet'') [] ''lib.jsonnet''))) [] ''lib.jsonnet''
       = ((MakeContentsRaw ''{ x: 1 }'', ''/root/sub/lib.jsonnet'', None),
          fst (snd (importerCall posixLib scenarioServer
            (newImporter ''file:///root/sub/main.jsonnet'') [] ''lib.jsonnet'')), [])"
proof -
  have miss: "cache (newImporter ''file:///root/sub/main.jsonnet'') q = None" for q
    by (simp add: newImporter_def)
  have frm: "importerFrom (newImporter ''file:///root/sub/main.jsonnet'')
      = ''file:///root/sub/main.jsonnet''"
    by (simp add: newImporter_def)
  have "isl (readPath posixLib scenarioServer ''missing.jsonnet'' ''file:///root/sub/main.jsonnet'')"
    by code_simp
  then obtain e where bad:
    "readPath posixLib scenarioServer ''missing.jsonnet'' ''file:///root/sub/main.jsonnet'' = Inl e"
    by (cases "readPath posixLib scenarioServer ''missing.jsonnet'' ''file:///root/sub/main.jsonnet''")
      auto
  have good: "readPath posixLib scenarioServer ''lib.jsonnet'' ''file:///root/sub/main.jsonnet''
      = Inr (''{ x: 1 }'', ''file:///root/sub/lib.jsonnet'')"
    by code_simp
  have fn: "Filename posixLib ''file:///root/sub/lib.jsonnet'' = ''/root/sub/lib.jsonnet''"
    by code_simp
  show ?thesis
    using miss frm bad good fn
      importerCall_repeats_first_outcome [where L = posixLib and s' = scenarioServer
        and s = scenarioServer and imp = "newImporter ''file:///root/sub/main.jsonnet''"
        and f = "[]" and p = "''missing.jsonnet''" and cs = "[]" and f' = "[]" and e = e]
      importerCall_repeats_first_outcome [where L = posixLib and s' = vendorServer
        and s = scenarioServer and imp = "newImporter ''file:///root/sub/main.jsonnet''"
        and f = "[]" and p = "''lib.jsonnet''" and cs = "[]" and f' = "[]"
        and data = "''{ x: 1 }''" and found = "''file:///root/sub/lib.jsonnet''"]
    by simp
qed

section \<open>Import resolution\<close>

lemma tryCandidates_first:
  "i < length cs \<Longrightarrow> \<forall>j<i. \<exists>e. readURI L s (cs ! j) = Inl e
    \<Longrightarrow> readURI L s (cs ! i) = Inr d \<Longrightarrow> tryCandidates L s cs = Some (d, cs ! i)"
proof (induction cs arbitrary: i)
  case Nil
  then show ?case by simp
next
  case (Cons c cs)
  show ?case
  proof (cases i)
    case 0
    then show ?thesis using Cons.prems by simp
  next
    case (Suc k)
    have "\<exists>e. readURI L s ((c # cs) ! 0) = Inl e"
      using Cons.prems(2) Suc by blast
    then obtain e where e: "readURI L s c = Inl e" by auto
    have k: "k < length cs" using Cons.prems(1) Suc by simp
    have "\<forall>j<k. \<exists>e. readURI L s (cs ! j) = Inl e"
    proof (intro allI impI)
      fix j assume "j < k"
      then have "Suc j < i" using Suc by simp
      then have "\<exists>e. readURI L s ((c # cs) ! Suc j) = Inl e"
        using Cons.prems(2) by blast
      then show "\<exists>e. readURI L s (cs ! j) = Inl e" by simp
    qed
    moreover have "readURI L s (cs ! k) = Inr d"
      using Cons.prems(3) Suc by simp
    ultimately have "tryCandidates L s cs = Some (d, cs ! k)"
      using Cons.IH k by blast
    then show ?thesis using e Suc by simp
  qed
qed


lemma readPath_relativized:
  "Rel L (Filename L (rootURI s)) (Dir L (Filename L f)) = Inr fromPath \<Longrightarrow>
   readPath L s p f =
     (case tryCandidates L s (candidates L s fromPath (relToRoot L s p)) of
        Some found \<Rightarrow> Inr found
      | None \<Rightarrow>
          Inl (OtherError (''path '' @ quoted (relToRoot L s p) @ '' not found in candidates [''
                 @ spaced (candidates L s fromPath (relToRoot L s p)) @ '']'')))"
  by (simp add: readPath_def Let_def)

lemma candidates_list:
  "candidates L s fromPath q =
     File L (Join L [Filename L (rootURI s), q])
     # File L (Join L [Filename L (rootURI s), fromPath, q])
     # map (\<lambda>search. File L (Join L [Filename L (rootURI s), search, q])) (searchPaths s)"
  by (simp add: candidates_def Let_def)



text \<open>
  C2 (as amended). When the directory of the importing file can be made relative to
  the root: a file readable at the workspace root candidate is the one returned,
  whether or not the same name exists in the importing file's directory or in a search
  directory; when the root candidate does not read, the copy in the importing file's
  directory is returned; and when neither reads, the first search directory, in
  configured order, whose copy reads.
\<close>

theorem readPath_root_before_importer:
  assumes rel: "Rel L (Filename L (rootURI s)) (Dir L (Filename L f)) = Inr fromPath"
  shows
  "(readURI L s (File L (Join L [Filename L (rootURI s), relToRoot L s p])) = Inr d \<longrightarrow>
      readPath L s p f = Inr (d, File L (Join L [Filename L (rootURI s), relToRoot L s p])))
   \<and> (readURI L s (File L (Join L [Filename L (rootURI s), relToRoot L s p])) = Inl e \<longrightarrow>
       readURI L s (File L (Join L [Filename L (rootURI s), fromPath, relToRoot L s p])) = Inr d \<longrightarrow>
       readPath L s p f = Inr (d, File L (Join L [Filename L (rootURI s), fromPath, relToRoot L s p])))
   \<and> (readURI L s (File L (Join L [Filename L (rootURI s), relToRoot L s p])) = Inl e \<longrightarrow>
       readURI L s (File L (Join L [Filename L (rootURI s), fromPath, relToRoot L s p])) = Inl e' \<longrightarrow>
       i < length (searchPaths s) \<longrightarrow>
       (\<forall>j<i. \<exists>e''. readURI L s
            (File L (Join L [Filename L (rootURI s), searchPaths s ! j, relToRoot L s p])) = Inl e'') \<longrightarrow>
       readURI L s (File L (Join L [Filename L (rootURI s), searchPaths s ! i, relToRoot L s p])) = Inr d \<longrightarrow>
       readPath L s p f =
         Inr (d, File L (Join L [Filename L (rootURI s), searchPaths s ! i, relToRoot L s p])))"
proof -
  let ?root = "File L (Join L [Filename L (rootURI s), relToRoot L s p])"
  let ?imp = "File L (Join L [Filename L (rootURI s), fromPath, relToRoot L s p])"
  let ?search = "\<lambda>x. File L (Join L [Filename L (rootURI s), x, relToRoot L s p])"
  have rp: "readPath L s p f =
     (case tryCandidates L s (?root # ?imp # map ?search (searchPaths s)) of
        Some found \<Rightarrow> Inr found
      | None \<Rightarrow>
          Inl (OtherError (''path '' @ quoted (relToRoot L s p) @ '' not found in candidates [''
                 @ spaced (candidates L s fromPath (relToRoot L s p)) @ '']'')))"
    using rel by (simp add: readPath_relativized candidates_list)
  have a: "readURI L s ?root = Inr d \<longrightarrow> readPath L s p f = Inr (d, ?root)"
    by (simp add: rp)
  have b: "readURI L s ?root = Inl e \<longrightarrow> readURI L s ?imp = Inr d \<longrightarrow>
       readPath L s p f = Inr (d, ?imp)"
    by (simp add: rp)
  have c: "readPath L s p f = Inr (d, ?search (searchPaths s ! i))"
    if r: "readURI L s ?root = Inl e" and m: "readURI L s ?imp = Inl e'"
      and i: "i < length (searchPaths s)"
      and before: "\<forall>j<i. \<exists>e''. readURI L s (?search (searchPaths s ! j)) = Inl e''"
      and at: "readURI L s (?search (searchPaths s ! i)) = Inr d"
  proof -
    have i': "i < length (map ?search (searchPaths s))"
      using i by simp
    have before': "\<forall>j<i. \<exists>e''. readURI L s (map ?search (searchPaths s) ! j) = Inl e''"
      using before i by simp
    have at': "readURI L s (map ?search (searchPaths s) ! i) = Inr d"
      using at i by simp
    have "tryCandidates L s (map ?search (searchPaths s))
        = Some (d, map ?search (searchPaths s) ! i)"
      using i' before' at' by (rule tryCandidates_first)
    then show ?thesis
      using r m i by (simp add: rp)
  qed
  show ?thesis
    using a b c by blast
qed

theorem readPath_root_before_importer_witness:
  "Rel posixLib (Filename posixLib (rootURI orderServer))
       (Dir posixLib (Filename posixLib ''file:///root/a/b/main.jsonnet'')) = Inr ''a/b''
   \<and> readURI posixLib orderServer ''file:///root/lib.jsonnet'' = Inr ''at root''
   \<and> readPath posixLib orderServer ''lib.jsonnet'' ''file:///root/a/b/main.jsonnet''
       = Inr (''at root'', ''file:///root/lib.jsonnet'')
   \<and> isl (readURI posixLib scenarioServer ''file:///root/lib.jsonnet'')
   \<and> readPath posixLib scenarioServer ''lib.jsonnet'' ''file:///root/sub/main.jsonnet''
       = Inr (''{ x: 1 }'', ''file:///root/sub/lib.jsonnet'')
   \<and> isl (readURI posixLib vendorServer ''file:///root/lib.jsonnet'')
   \<and> isl (readURI posixLib vendorServer ''file:///root/sub/lib.jsonnet'')
   \<and> readPath posixLib vendorServer ''lib.jsonnet'' ''file:///root/sub/main.jsonnet''
       = Inr (''at vendor'', ''file:///root/vendor/lib.jsonnet'')"
proof -
  have rel: "Rel posixLib (Filename posixLib (rootURI orderServer))
       (Dir posixLib (Filename posixLib ''file:///root/a/b/main.jsonnet'')) = Inr ''a/b''"
    by code_simp
  have r: "relToRoot posixLib orderServer ''lib.jsonnet'' = ''lib.jsonnet''"
    by code_simp
  have rootc: "File posixLib (Join posixLib [Filename posixLib (rootURI orderServer), ''lib.jsonnet''])
      = ''file:///root/lib.jsonnet''"
    by code_simp
  have atroot: "readURI posixLib orderServer ''file:///root/lib.jsonnet'' = Inr ''at root''"
    by code_simp
  have one: "readPath posixLib orderServer ''lib.jsonnet'' ''file:///root/a/b/main.jsonnet''
       = Inr (''at root'', ''file:///root/lib.jsonnet'')"
    using readPath_root_before_importer [OF rel, where p = "''lib.jsonnet''" and d = "''at root''"] atroot
    by (simp add: r rootc)
  have rel2: "Rel posixLib (Filename posixLib (rootURI scenarioServer))
       (Dir posixLib (Filename posixLib ''file:///root/sub/main.jsonnet'')) = Inr ''sub''"
    by code_simp
  have r2: "relToRoot posixLib scenarioServer ''lib.jsonnet'' = ''lib.jsonnet''"
    by code_simp
  have rootc2: "File posixLib (Join posixLib [Filename posixLib (rootURI scenarioServer), ''lib.jsonnet''])
      = ''file:///root/lib.jsonnet''"
    and impc2: "File posixLib (Join posixLib [Filename posixLib (rootURI scenarioServer), ''sub'',
        ''lib.jsonnet'']) = ''file:///root/sub/lib.jsonnet''"
    by code_simp+
  have noroot2: "isl (readURI posixLib scenarioServer ''file:///root/lib.jsonnet'')"
    by code_simp
  then obtain e2 where e2: "readURI posixLib scenarioServer ''file:///root/lib.jsonnet'' = Inl e2"
    by (auto simp: isl_def)
  have atimp2: "readURI posixLib scenarioServer ''file:///root/sub/lib.jsonnet'' = Inr ''{ x: 1 }''"
    by code_simp
  have two: "readPath posixLib scenarioServer ''lib.jsonnet'' ''file:///root/sub/main.jsonnet''
       = Inr (''{ x: 1 }'', ''file:///root/sub/lib.jsonnet'')"
    using readPath_root_before_importer [OF rel2, where p = "''lib.jsonnet''" and d = "''{ x: 1 }''"
        and e = e2] e2 atimp2
    by (simp add: r2 rootc2 impc2)
  have rel3: "Rel posixLib (Filename posixLib (rootURI vendorServer))
       (Dir posixLib (Filename posixLib ''file:///root/sub/main.jsonnet'')) = Inr ''sub''"
    by code_simp
  have r3: "relToRoot posixLib vendorServer ''lib.jsonnet'' = ''lib.jsonnet''"
    by code_simp
  have rootc3: "File posixLib (Join posixLib [Filename posixLib (rootURI vendorServer), ''lib.jsonnet''])
      = ''file:///root/lib.jsonnet''"
    and impc3: "File posixLib (Join posixLib [Filename posixLib (rootURI vendorServer), ''sub'',
        ''lib.jsonnet'']) = ''file:///root/sub/lib.jsonnet''"
    and sc3: "File posixLib (Join posixLib [Filename posixLib (rootURI vendorServer),
        searchPaths vendorServer ! 0, ''lib.jsonnet'']) = ''file:///root/vendor/lib.jsonnet''"
    and len3: "0 < length (searchPaths vendorServer)"
    by code_simp+
  have noroot3: "isl (readURI posixLib vendorServer ''file:///root/lib.jsonnet'')"
    and noimp3: "isl (readURI posixLib vendorServer ''file:///root/sub/lib.jsonnet'')"
    by code_simp+
  obtain e3 e3' where e3: "readURI posixLib vendorServer ''file:///root/lib.jsonnet'' = Inl e3"
    and e3': "readURI posixLib vendorServer ''file:///root/sub/lib.jsonnet'' = Inl e3'"
    using noroot3 noimp3 by (auto simp: isl_def)
  have atv: "readURI posixLib vendorServer ''file:///root/vendor/lib.jsonnet'' = Inr ''at vendor''"
    by code_simp
  have three: "readPath posixLib vendorServer ''lib.jsonnet'' ''file:///root/sub/main.jsonnet''
       = Inr (''at vendor'', ''file:///root/vendor/lib.jsonnet'')"
    using readPath_root_before_importer [OF rel3, where p = "''lib.jsonnet''" and d = "''at vendor''"
        and e = e3 and e' = e3' and i = 0]
      e3 e3' atv len3
    by (simp add: r3 rootc3 impc3 sc3)
  show ?thesis
    using rel atroot one noroot2 two noroot3 noimp3 three by blast
qed

text \<open>
  The claim as first stated gives the copy in the importing file's directory
  precedence over the one at the workspace root. With \<open>lib.jsonnet\<close> at the root, in
  \<open>a/b\<close> beside the importing file and in \<open>vendor\<close>, the import from
  \<open>/root/a/b/main.jsonnet\<close> resolves to the copy at the root.
\<close>

theorem readPath_importer_not_first_counterexample:
  "readURI posixLib orderServer ''file:///root/a/b/lib.jsonnet'' = Inr ''at importer''
   \<and> readURI posixLib orderServer ''file:///root/lib.jsonnet'' = Inr ''at root''
   \<and> readURI posixLib orderServer ''file:///root/vendor/lib.jsonnet'' = Inr ''at vendor''
   \<and> readPath posixLib orderServer ''lib.jsonnet'' ''file:///root/a/b/main.jsonnet''
       = Inr (''at root'', ''file:///root/lib.jsonnet'')
   \<and> readPath posixLib orderServer ''lib.jsonnet'' ''file:///root/a/b/main.jsonnet''
       \<noteq> Inr (''at importer'', ''file:///root/a/b/lib.jsonnet'')"
  by code_simp

section \<open>Parsing with recovery: proofs\<close>




section \<open>Processing a document update: proofs\<close>

lemma StaticErr_Some:
  "StaticErr p = Some se \<Longrightarrow> (\<exists>msg l. se = StaticError msg l) \<and> (\<exists>r. p = Some r \<and> Err r = Some se)"
  by (auto simp: StaticErr_def split: option.splits error.splits)

lemma Format_diags:
  "Format L e er = Inr ((e', lg), txt)
    \<Longrightarrow> Diags e' = Diags e @ lintDiagnostics L (URI e) [er] \<and> URI e' = URI e"
  by (cases er) (auto simp: Format_def Collect_def split: if_splits list.splits)

lemma formatAll_diags:
  "formatAll L e ers = Inr (e', lg)
    \<Longrightarrow> Diags e' = Diags e @ lintDiagnostics L (URI e) ers \<and> URI e' = URI e"
proof (induction ers arbitrary: e e' lg)
  case Nil
  then show ?case by simp
next
  case (Cons er ers)
  from Cons.prems obtain e1 lg1 shown lg2 where
    f: "Format L e er = Inr ((e1, lg1), shown)" and r: "formatAll L e1 ers = Inr (e', lg2)"
    by (auto split: sum.splits)
  have one: "Diags e1 = Diags e @ lintDiagnostics L (URI e) [er] \<and> URI e1 = URI e"
    using f by (rule Format_diags)
  have rest: "Diags e' = Diags e1 @ lintDiagnostics L (URI e1) ers \<and> URI e' = URI e1"
    using r by (rule Cons.IH)
  have "lintDiagnostics L (URI e) (er # ers)
      = lintDiagnostics L (URI e) [er] @ lintDiagnostics L (URI e) ers"
    by (cases er) (simp_all split: list.splits)
  then show ?case
    using one rest by simp
qed

text \<open>
  C8 (as amended). On every document update that has a current snapshot: if the
  parse left a static error, that error is collected at error severity and the linter
  is not run (whether or not a recovered tree exists); the linter runs only when there
  is no static parse error and a parsed snapshot exists whose version equals the
  current one's, and then its findings are collected at warning severity and its
  runtime failures at error severity; and in each of these cases, once collection has
  completed, the collector's full set of diagnostics (possibly empty, and for the
  function \<open>processFileUpdateFn\<close> returns starting empty) is published for the URI
  at the current version as a \<open>uint32\<close>. On an update with no current snapshot
  nothing is collected, linted or published.
\<close>

theorem callUpdateFunc_collects_and_publishes:
  "(Current ur = None \<longrightarrow>
      callUpdateFunc L f ur = Inr \<lparr>collector = ec f, linted = [], published = []\<rparr>)
   \<and> (Current ur = Some cur \<longrightarrow> StaticErr (Data cur) = Some (StaticError msg l) \<longrightarrow>
        callUpdateFunc L f ur =
          Inr \<lparr>collector =
                 (if FileName l = Filename L (URI (ec f))
                  then (ec f)\<lparr>Diags := Diags (ec f) @
                         [\<lparr>Range = rangeToProto l, Severity = DiagnosticSeverityError,
                           Source = ''jsonnet'', Message = msg\<rparr>]\<rparr>
                  else ec f),
               linted = [],
               published =
                 [\<lparr>PubURI = updURI f, PubVersion = word_of_int (Version cur),
                   Diagnostics =
                     (if FileName l = Filename L (URI (ec f))
                      then Diags (ec f) @
                         [\<lparr>Range = rangeToProto l, Severity = DiagnosticSeverityError,
                           Source = ''jsonnet'', Message = msg\<rparr>]
                      else Diags (ec f))\<rparr>]\<rparr>)
   \<and> (StaticErr (Data cur) = Some se \<longrightarrow> (\<exists>msg' l'. se = StaticError msg' l'))
   \<and> (Current ur = Some cur \<longrightarrow> StaticErr (Data cur) = None \<longrightarrow>
        Parsed ur = Some parsed \<longrightarrow> Version cur = Version parsed \<longrightarrow>
        formatAll L (ec f) (LintSnippet L (cvm f) (Filename L (updURI f), Contents parsed))
          = Inr (e', lg) \<longrightarrow>
        callUpdateFunc L f ur =
          Inr \<lparr>collector = e', linted = [(Filename L (updURI f), Contents parsed)],
               published =
                 [\<lparr>PubURI = updURI f, PubVersion = word_of_int (Version cur),
                   Diagnostics = Diags e'\<rparr>]\<rparr>
        \<and> Diags e' = Diags (ec f) @ lintDiagnostics L (URI (ec f))
              (LintSnippet L (cvm f) (Filename L (updURI f), Contents parsed)))
   \<and> (Current ur = Some cur \<longrightarrow> StaticErr (Data cur) = None \<longrightarrow>
        (Parsed ur = None \<or> (\<exists>other. Parsed ur = Some other \<and> Version cur \<noteq> Version other)) \<longrightarrow>
        callUpdateFunc L f ur =
          Inr \<lparr>collector = ec f, linted = [],
               published =
                 [\<lparr>PubURI = updURI f, PubVersion = word_of_int (Version cur),
                   Diagnostics = Diags (ec f)\<rparr>]\<rparr>)
   \<and> ec (fst (processFileUpdateFn s u)) = \<lparr>URI = u, Diags = []\<rparr>
   \<and> updURI (fst (processFileUpdateFn s u)) = u
   \<and> cvm (fst (processFileUpdateFn s u)) = fst (getVM s u)"
proof -
  have none: "Current ur = None \<longrightarrow>
      callUpdateFunc L f ur = Inr \<lparr>collector = ec f, linted = [], published = []\<rparr>"
    by (simp add: callUpdateFunc_def)
  have static: "Current ur = Some cur \<longrightarrow> StaticErr (Data cur) = Some (StaticError msg l) \<longrightarrow>
        callUpdateFunc L f ur =
          Inr \<lparr>collector =
                 (if FileName l = Filename L (URI (ec f))
                  then (ec f)\<lparr>Diags := Diags (ec f) @
                         [\<lparr>Range = rangeToProto l, Severity = DiagnosticSeverityError,
                           Source = ''jsonnet'', Message = msg\<rparr>]\<rparr>
                  else ec f),
               linted = [],
               published =
                 [\<lparr>PubURI = updURI f, PubVersion = word_of_int (Version cur),
                   Diagnostics =
                     (if FileName l = Filename L (URI (ec f))
                      then Diags (ec f) @
                         [\<lparr>Range = rangeToProto l, Severity = DiagnosticSeverityError,
                           Source = ''jsonnet'', Message = msg\<rparr>]
                      else Diags (ec f))\<rparr>]\<rparr>"
    by (simp add: callUpdateFunc_def Collect_def publishParams_def)
  have shape: "StaticErr (Data cur) = Some se \<longrightarrow> (\<exists>msg' l'. se = StaticError msg' l')"
    using StaticErr_Some by blast
  have lint: "callUpdateFunc L f ur =
          Inr \<lparr>collector = e', linted = [(Filename L (updURI f), Contents parsed)],
               published =
                 [\<lparr>PubURI = updURI f, PubVersion = word_of_int (Version cur),
                   Diagnostics = Diags e'\<rparr>]\<rparr>
        \<and> Diags e' = Diags (ec f) @ lintDiagnostics L (URI (ec f))
              (LintSnippet L (cvm f) (Filename L (updURI f), Contents parsed))"
    if "Current ur = Some cur" "StaticErr (Data cur) = None" "Parsed ur = Some parsed"
      "Version cur = Version parsed"
      "formatAll L (ec f) (LintSnippet L (cvm f) (Filename L (updURI f), Contents parsed))
          = Inr (e', lg)"
    using that formatAll_diags [OF that(5)]
    by (simp add: callUpdateFunc_def publishParams_def)
  have nolint: "Current ur = Some cur \<longrightarrow> StaticErr (Data cur) = None \<longrightarrow>
        (Parsed ur = None \<or> (\<exists>other. Parsed ur = Some other \<and> Version cur \<noteq> Version other)) \<longrightarrow>
        callUpdateFunc L f ur =
          Inr \<lparr>collector = ec f, linted = [],
               published =
                 [\<lparr>PubURI = updURI f, PubVersion = word_of_int (Version cur),
                   Diagnostics = Diags (ec f)\<rparr>]\<rparr>"
    by (auto simp: callUpdateFunc_def publishParams_def)
  have fresh: "ec (fst (processFileUpdateFn s u)) = \<lparr>URI = u, Diags = []\<rparr>
   \<and> updURI (fst (processFileUpdateFn s u)) = u
   \<and> cvm (fst (processFileUpdateFn s u)) = fst (getVM s u)"
    by (simp add: processFileUpdateFn_def)
  show ?thesis
    using none static shape lint nolint fresh by blast
qed

theorem callUpdateFunc_collects_and_publishes_witness:
  "callUpdateFunc lintLib (fst (processFileUpdateFn scenarioServer ''file:///root/a.jsonnet''))
      \<lparr>Current = Some (recoveredEntry 7), Parsed = Some (parsedEntry 6)\<rparr>
     = Inr \<lparr>collector = \<lparr>URI = ''file:///root/a.jsonnet'', Diags =
               [\<lparr>Range = \<lparr>Start = \<lparr>PLine = 0, Character = 12\<rparr>,
                           REnd = \<lparr>PLine = 0, Character = 13\<rparr>\<rparr>,
                 Severity = DiagnosticSeverityError, Source = ''jsonnet'',
                 Message = ''expected , or ;''\<rparr>]\<rparr>,
            linted = [],
            published =
              [\<lparr>PubURI = ''file:///root/a.jsonnet'', PubVersion = 7, Diagnostics =
                 [\<lparr>Range = \<lparr>Start = \<lparr>PLine = 0, Character = 12\<rparr>,
                             REnd = \<lparr>PLine = 0, Character = 13\<rparr>\<rparr>,
                   Severity = DiagnosticSeverityError, Source = ''jsonnet'',
                   Message = ''expected , or ;''\<rparr>]\<rparr>]\<rparr>
   \<and> callUpdateFunc lintLib (fst (processFileUpdateFn scenarioServer ''file:///root/a.jsonnet''))
      \<lparr>Current = Some (parsedEntry 8), Parsed = Some (parsedEntry 8)\<rparr>
     = Inr \<lparr>collector = \<lparr>URI = ''file:///root/a.jsonnet'', Diags =
               [\<lparr>Range = \<lparr>Start = \<lparr>PLine = 0, Character = 6\<rparr>,
                           REnd = \<lparr>PLine = 0, Character = 7\<rparr>\<rparr>,
                 Severity = DiagnosticSeverityWarning, Source = ''jsonnet'',
                 Message = ''unused variable: x''\<rparr>,
                \<lparr>Range = \<lparr>Start = \<lparr>PLine = 1, Character = 2\<rparr>,
                           REnd = \<lparr>PLine = 1, Character = 8\<rparr>\<rparr>,
                 Severity = DiagnosticSeverityError, Source = ''jsonnet'',
                 Message = ''boom''\<rparr>]\<rparr>,
            linted = [(''/root/a.jsonnet'', ''local x = 1; x'')],
            published =
              [\<lparr>PubURI = ''file:///root/a.jsonnet'', PubVersion = 8, Diagnostics =
                 [\<lparr>Range = \<lparr>Start = \<lparr>PLine = 0, Character = 6\<rparr>,
                             REnd = \<lparr>PLine = 0, Character = 7\<rparr>\<rparr>,
                   Severity = DiagnosticSeverityWarning, Source = ''jsonnet'',
                   Message = ''unused variable: x''\<rparr>,
                  \<lparr>Range = \<lparr>Start = \<lparr>PLine = 1, Character = 2\<rparr>,
                             REnd = \<lparr>PLine = 1, Character = 8\<rparr>\<rparr>,
                   Severity = DiagnosticSeverityError, Source = ''jsonnet'',
                   Message = ''boom''\<rparr>]\<rparr>]\<rparr>
   \<and> callUpdateFunc lintLib (fst (processFileUpdateFn scenarioServer ''file:///root/a.jsonnet''))
      \<lparr>Current = Some (parsedEntry 9), Parsed = Some (parsedEntry 8)\<rparr>
     = Inr \<lparr>collector = \<lparr>URI = ''file:///root/a.jsonnet'', Diags = []\<rparr>, linted = [],
            published =
              [\<lparr>PubURI = ''file:///root/a.jsonnet'', PubVersion = 9, Diagnostics = []\<rparr>]\<rparr>"
proof -
  let ?f = "fst (processFileUpdateFn scenarioServer ''file:///root/a.jsonnet'')"
  have se: "StaticErr (Data (recoveredEntry 7))
      = Some (StaticError ''expected , or ;''
          \<lparr>FileName = ''/root/a.jsonnet'', Begin = \<lparr>Line = 1, Column = 13\<rparr>,
            End = \<lparr>Line = 1, Column = 14\<rparr>\<rparr>)"
    by (simp add: StaticErr_def recoveredEntry_def scenarioError_def)
  have ok: "StaticErr (Data (parsedEntry v)) = None" for v
    by (simp add: StaticErr_def parsedEntry_def)
  have fn: "Filename lintLib ''file:///root/a.jsonnet'' = ''/root/a.jsonnet''"
    by (simp add: lintLib_def scenarioLib_def posixLib_def posixFilename_def)
  have rng: "rangeToProto \<lparr>FileName = ''/root/a.jsonnet'', Begin = \<lparr>Line = 1, Column = 13\<rparr>,
            End = \<lparr>Line = 1, Column = 14\<rparr>\<rparr>
      = \<lparr>Start = \<lparr>PLine = 0, Character = 12\<rparr>, REnd = \<lparr>PLine = 0, Character = 13\<rparr>\<rparr>"
    by (simp add: rangeToProto_def posToProto_def word_sless_alt)
  have lint: "LintSnippet lintLib c snippet = lintFindings" for c snippet
    by (simp add: lintLib_def)
  have run: "formatAll lintLib \<lparr>URI = ''file:///root/a.jsonnet'', Diags = []\<rparr> lintFindings
      = Inr (\<lparr>URI = ''file:///root/a.jsonnet'', Diags =
               [\<lparr>Range = \<lparr>Start = \<lparr>PLine = 0, Character = 6\<rparr>,
                           REnd = \<lparr>PLine = 0, Character = 7\<rparr>\<rparr>,
                 Severity = DiagnosticSeverityWarning, Source = ''jsonnet'',
                 Message = ''unused variable: x''\<rparr>,
                \<lparr>Range = \<lparr>Start = \<lparr>PLine = 1, Character = 2\<rparr>,
                           REnd = \<lparr>PLine = 1, Character = 8\<rparr>\<rparr>,
                 Severity = DiagnosticSeverityError, Source = ''jsonnet'',
                 Message = ''boom''\<rparr>]\<rparr>, [OtherError ''odd''])"
    by (simp add: lintFindings_def Format_def Collect_def fn rangeToProto_def posToProto_def
        word_sless_alt)
  have v: "Version (recoveredEntry n) = n" "Version (parsedEntry n) = n"
    "Contents (parsedEntry n) = ''local x = 1; x''" for n
    by (simp_all add: recoveredEntry_def parsedEntry_def)
  have one: "callUpdateFunc lintLib ?f
      \<lparr>Current = Some (recoveredEntry 7), Parsed = Some (parsedEntry 6)\<rparr>
     = Inr \<lparr>collector = \<lparr>URI = ''file:///root/a.jsonnet'', Diags =
               [\<lparr>Range = \<lparr>Start = \<lparr>PLine = 0, Character = 12\<rparr>,
                           REnd = \<lparr>PLine = 0, Character = 13\<rparr>\<rparr>,
                 Severity = DiagnosticSeverityError, Source = ''jsonnet'',
                 Message = ''expected , or ;''\<rparr>]\<rparr>,
            linted = [],
            published =
              [\<lparr>PubURI = ''file:///root/a.jsonnet'', PubVersion = 7, Diagnostics =
                 [\<lparr>Range = \<lparr>Start = \<lparr>PLine = 0, Character = 12\<rparr>,
                             REnd = \<lparr>PLine = 0, Character = 13\<rparr>\<rparr>,
                   Severity = DiagnosticSeverityError, Source = ''jsonnet'',
                   Message = ''expected , or ;''\<rparr>]\<rparr>]\<rparr>"
    using se
      callUpdateFunc_collects_and_publishes [where L = lintLib and f = ?f
        and ur = "\<lparr>Current = Some (recoveredEntry 7), Parsed = Some (parsedEntry 6)\<rparr>"
        and cur = "recoveredEntry 7" and msg = "''expected , or ;''"
        and l = "\<lparr>FileName = ''/root/a.jsonnet'', Begin = \<lparr>Line = 1, Column = 13\<rparr>,
            End = \<lparr>Line = 1, Column = 14\<rparr>\<rparr>"
        and s = scenarioServer and u = "''file:///root/a.jsonnet''"]
    by (simp add: fn rng v)
  have two: "callUpdateFunc lintLib ?f
      \<lparr>Current = Some (parsedEntry 8), Parsed = Some (parsedEntry 8)\<rparr>
     = Inr \<lparr>collector = \<lparr>URI = ''file:///root/a.jsonnet'', Diags =
               [\<lparr>Range = \<lparr>Start = \<lparr>PLine = 0, Character = 6\<rparr>,
                           REnd = \<lparr>PLine = 0, Character = 7\<rparr>\<rparr>,
                 Severity = DiagnosticSeverityWarning, Source = ''jsonnet'',
                 Message = ''unused variable: x''\<rparr>,
                \<lparr>Range = \<lparr>Start = \<lparr>PLine = 1, Character = 2\<rparr>,
                           REnd = \<lparr>PLine = 1, Character = 8\<rparr>\<rparr>,
                 Severity = DiagnosticSeverityError, Source = ''jsonnet'',
                 Message = ''boom''\<rparr>]\<rparr>,
            linted = [(''/root/a.jsonnet'', ''local x = 1; x'')],
            published =
              [\<lparr>PubURI = ''file:///root/a.jsonnet'', PubVersion = 8, Diagnostics =
                 [\<lparr>Range = \<lparr>Start = \<lparr>PLine = 0, Character = 6\<rparr>,
                             REnd = \<lparr>PLine = 0, Character = 7\<rparr>\<rparr>,
                   Severity = DiagnosticSeverityWarning, Source = ''jsonnet'',
                   Message = ''unused variable: x''\<rparr>,
                  \<lparr>Range = \<lparr>Start = \<lparr>PLine = 1, Character = 2\<rparr>,
                             REnd = \<lparr>PLine = 1, Character = 8\<rparr>\<rparr>,
                   Severity = DiagnosticSeverityError, Source = ''jsonnet'',
                   Message = ''boom''\<rparr>]\<rparr>]\<rparr>"
    using ok [of 8] run
      callUpdateFunc_collects_and_publishes [where L = lintLib and f = ?f
        and ur = "\<lparr>Current = Some (parsedEntry 8), Parsed = Some (parsedEntry 8)\<rparr>"
        and cur = "parsedEntry 8" and parsed = "parsedEntry 8"
        and e' = "\<lparr>URI = ''file:///root/a.jsonnet'', Diags =
               [\<lparr>Range = \<lparr>Start = \<lparr>PLine = 0, Character = 6\<rparr>,
                           REnd = \<lparr>PLine = 0, Character = 7\<rparr>\<rparr>,
                 Severity = DiagnosticSeverityWarning, Source = ''jsonnet'',
                 Message = ''unused variable: x''\<rparr>,
                \<lparr>Range = \<lparr>Start = \<lparr>PLine = 1, Character = 2\<rparr>,
                           REnd = \<lparr>PLine = 1, Character = 8\<rparr>\<rparr>,
                 Severity = DiagnosticSeverityError, Source = ''jsonnet'',
                 Message = ''boom''\<rparr>]\<rparr>"
        and lg = "[OtherError ''odd'']"
        and s = scenarioServer and u = "''file:///root/a.jsonnet''"]
    by (simp add: fn v lint)
  have three: "callUpdateFunc lintLib ?f
      \<lparr>Current = Some (parsedEntry 9), Parsed = Some (parsedEntry 8)\<rparr>
     = Inr \<lparr>collector = \<lparr>URI = ''file:///root/a.jsonnet'', Diags = []\<rparr>, linted = [],
            published =
              [\<lparr>PubURI = ''file:///root/a.jsonnet'', PubVersion = 9, Diagnostics = []\<rparr>]\<rparr>"
    using ok [of 9]
      callUpdateFunc_collects_and_publishes [where L = lintLib and f = ?f
        and ur = "\<lparr>Current = Some (parsedEntry 9), Parsed = Some (parsedEntry 8)\<rparr>"
        and cur = "parsedEntry 9"
        and s = scenarioServer and u = "''file:///root/a.jsonnet''"]
    by (simp add: v)
  show ?thesis
    using one two three by blast
qed

text \<open>
  The claim as first stated has a diagnostics set published on every update. An
  update whose current snapshot is nil stops at the guard \<open>ur.Current == nil\<close>:
  nothing is published, also when a parsed snapshot is there.
\<close>

theorem callUpdateFunc_no_current_counterexample:
  "callUpdateFunc lintLib (fst (processFileUpdateFn scenarioServer ''file:///root/a.jsonnet''))
      \<lparr>Current = None, Parsed = Some (parsedEntry 8)\<rparr>
     = Inr \<lparr>collector = \<lparr>URI = ''file:///root/a.jsonnet'', Diags = []\<rparr>, linted = [],
            published = []\<rparr>
   \<and> published (projr (callUpdateFunc lintLib
        (fst (processFileUpdateFn scenarioServer ''file:///root/a.jsonnet''))
        \<lparr>Current = None, Parsed = Some (parsedEntry 8)\<rparr>)) = []"
  by (simp add: callUpdateFunc_def processFileUpdateFn_def)

section \<open>The scope resolver: proofs\<close>

lemma bind_all_apply:
  "foldl (\<lambda>m' y. m'(y \<mapsto> n)) m ys x = (if x \<in> set ys then Some n else m x)"
  by (induction ys arbitrary: m) auto

lemma addNames_apply:
  "addNames m n x = (if x \<in> set (introduced n) then Some n else m x)"
  by (simp add: addNames_def bind_all_apply)

lemma foldl_addNames_skip:
  "\<forall>n \<in> set post. x \<notin> set (introduced n) \<Longrightarrow> foldl addNames m post x = m x"
  by (induction post arbitrary: m) (simp_all add: addNames_apply)

lemma StackVars_innermost:
  assumes "x \<in> set (introduced inner)" and "\<forall>n \<in> set post. x \<notin> set (introduced n)"
  shows "StackVars (pre @ inner # post) x = Some inner"
proof -
  have "StackVars (pre @ inner # post) x
      = foldl addNames (addNames (foldl addNames (\<lambda>x. None) pre) inner) post x"
    by (simp add: StackVars_def)
  also have "\<dots> = addNames (foldl addNames (\<lambda>x. None) pre) inner x"
    using assms(2) by (rule foldl_addNames_skip)
  also have "\<dots> = Some inner"
    using assms(1) by (simp add: addNames_apply)
  finally show ?thesis .
qed

text \<open>
  C6. When the root of the query node's file is registered, \<open>Vars\<close> folds the
  ancestor stack of the query node (the cached one, or the one found by search from
  the root) from the outside in, a later node's names overwriting an earlier node's.
  So when an outer node of the stack binds \<open>x\<close> and a node deeper in the stack binds
  \<open>x\<close> too, with no rebinding of \<open>x\<close> below it, the map sends \<open>x\<close> to the inner
  binder and not to the outer one.
\<close>

theorem Vars_inner_binding_shadows_outer:
  "(roots r (FileName (nodeLoc from_node)) = Some root \<longrightarrow>
      Vars r from_node = Inr (StackVars (varsStack r root from_node))
      \<and> (varsStack r root from_node = pre @ outer # mid @ inner # post \<longrightarrow>
           x \<in> set (introduced outer) \<longrightarrow> x \<in> set (introduced inner) \<longrightarrow>
           (\<forall>n \<in> set post. x \<notin> set (introduced n)) \<longrightarrow>
           (\<exists>m. Vars r from_node = Inr m \<and> m x = Some inner
                \<and> (inner \<noteq> outer \<longrightarrow> m x \<noteq> Some outer))))
   \<and> (stackCache r from_node = None \<longrightarrow> varsStack r root from_node = StackAtNode root from_node)
   \<and> (stackCache r from_node = Some stk \<longrightarrow> stk \<noteq> [] \<longrightarrow> varsStack r root from_node = stk)
   \<and> StackVars (stk' @ [n]) y = (if y \<in> set (introduced n) then Some n else StackVars stk' y)
   \<and> StackVars [] y = None"
proof -
  have v: "Vars r from_node = Inr (StackVars (varsStack r root from_node))"
    if "roots r (FileName (nodeLoc from_node)) = Some root"
    using that by (simp add: Vars_def)
  have sh: "StackVars (varsStack r root from_node) x = Some inner"
    if "varsStack r root from_node = pre @ outer # mid @ inner # post"
      and "x \<in> set (introduced inner)" and "\<forall>n \<in> set post. x \<notin> set (introduced n)"
  proof -
    have "StackVars ((pre @ outer # mid) @ inner # post) x = Some inner"
      using that(2,3) by (rule StackVars_innermost)
    then show ?thesis
      using that(1) by simp
  qed
  have c1: "stackCache r from_node = None \<longrightarrow>
      varsStack r root from_node = StackAtNode root from_node"
    by (simp add: varsStack_def)
  have c2: "stackCache r from_node = Some stk \<longrightarrow> stk \<noteq> [] \<longrightarrow>
      varsStack r root from_node = stk"
    by (simp add: varsStack_def)
  have f1: "StackVars (stk' @ [n]) y
      = (if y \<in> set (introduced n) then Some n else StackVars stk' y)"
    by (simp add: StackVars_def addNames_apply)
  have f2: "StackVars [] y = None"
    by (simp add: StackVars_def)
  show ?thesis
    using v sh c1 c2 f1 f2 by auto
qed

theorem Vars_inner_binding_shadows_outer_witness:
  "roots (the (NewResolver shadowServer ''file:///root/a.jsonnet''))
       (FileName (nodeLoc queryNode)) = Some outerNode
   \<and> varsStack (the (NewResolver shadowServer ''file:///root/a.jsonnet'')) outerNode queryNode
       = [outerNode, innerNode, queryNode]
   \<and> ''x'' \<in> set (introduced outerNode) \<and> ''x'' \<in> set (introduced innerNode)
   \<and> ''x'' \<notin> set (introduced queryNode) \<and> innerNode \<noteq> outerNode
   \<and> (\<exists>m. Vars (the (NewResolver shadowServer ''file:///root/a.jsonnet'')) queryNode = Inr m
         \<and> m ''x'' = Some innerNode \<and> m ''x'' \<noteq> Some outerNode)"
proof -
  let ?r = "the (NewResolver shadowServer ''file:///root/a.jsonnet'')"
  have r: "?r = \<lparr>resolverURI = ''file:///root/a.jsonnet'', rootAST = outerNode,
      stackCache = (\<lambda>n. None),
      roots = (\<lambda>f. None)(FileName (nodeLoc outerNode) \<mapsto> outerNode),
      getvm = Some (\<lambda>s'. getVM s' ''file:///root/a.jsonnet''), resolverVM = None\<rparr>"
    by (simp add: NewResolver_def getCurrentAST_def shadowServer_def)
  have files: "FileName (nodeLoc queryNode) = FileName (nodeLoc outerNode)"
    by (simp add: queryNode_def outerNode_def)
  have root: "roots ?r (FileName (nodeLoc queryNode)) = Some outerNode"
    by (simp add: r files)
  have search: "StackAtNode outerNode queryNode = [outerNode, innerNode, queryNode]"
    by code_simp
  have stack: "varsStack ?r outerNode queryNode = [outerNode, innerNode, queryNode]"
    using search by (simp add: r varsStack_def)
  have names: "''x'' \<in> set (introduced outerNode)" "''x'' \<in> set (introduced innerNode)"
    "''x'' \<notin> set (introduced queryNode)"
    by (simp_all add: introduced_def outerNode_def innerNode_def queryNode_def)
  have differ: "innerNode \<noteq> outerNode"
    by (simp add: innerNode_def outerNode_def)
  have stack': "varsStack ?r outerNode queryNode = [] @ outerNode # [] @ innerNode # [queryNode]"
    using stack by simp
  have post: "\<forall>n \<in> set [queryNode]. ''x'' \<notin> set (introduced n)"
    using names(3) by simp
  have "\<exists>m. Vars ?r queryNode = Inr m \<and> m ''x'' = Some innerNode
      \<and> (innerNode \<noteq> outerNode \<longrightarrow> m ''x'' \<noteq> Some outerNode)"
    using root stack' names(1,2) post
      Vars_inner_binding_shadows_outer [where r = ?r and from_node = queryNode
        and root = outerNode and pre = "[]" and outer = outerNode and mid = "[]"
        and inner = innerNode and post = "[queryNode]" and x = "''x''"]
    by blast
  then show ?thesis
    using root stack names differ by blast
qed

lemma importWith_roots:
  "importWith L s r c path = (found, s', r') \<Longrightarrow>
   (case found of
      None \<Rightarrow> roots r' = roots r
    | Some root \<Rightarrow> roots r' = (roots r)(FileName (nodeLoc root) \<mapsto> root))"
  by (auto simp: importWith_def split: prod.splits option.splits)

lemma Import_roots:
  "Import L s r path = (found, s', r') \<Longrightarrow>
   (case found of
      None \<Rightarrow> roots r' = roots r
    | Some root \<Rightarrow> roots r' = (roots r)(FileName (nodeLoc root) \<mapsto> root))"
proof (cases "resolverVM r")
  case (Some c)
  assume "Import L s r path = (found, s', r')"
  then have "importWith L s r c path = (found, s', r')"
    using Some by (simp add: Import_def)
  then show ?thesis
    by (rule importWith_roots)
next
  case None
  assume i: "Import L s r path = (found, s', r')"
  show ?thesis
  proof (cases "getvm r")
    case None
    then show ?thesis
      using i \<open>resolverVM r = None\<close> by (auto simp: Import_def)
  next
    case (Some g)
    then have "importWith L (snd (g s)) r (fst (g s)) path = (found, s', r')"
      using i \<open>resolverVM r = None\<close> by (simp add: Import_def)
    then show ?thesis
      by (rule importWith_roots)
  qed
qed

text \<open>
  C9. For every node \<open>n\<close>, \<open>Vars\<close> panics exactly when the session's map from file
  name to root has no root under the file name of \<open>n\<close>, and returns a visible-names
  map otherwise. The session \<open>NewResolver\<close> makes has its initial root registered
  under that root's file name; an \<open>Import\<close> that returns a root registers it under
  its file name and keeps what was registered; one that returns none leaves the map
  as it was.
\<close>

theorem Vars_panics_iff_no_root:
  "((Vars r n = Inl NoRootImported) = (roots r (FileName (nodeLoc n)) = None))
   \<and> ((\<exists>m. Vars r n = Inr m) = (roots r (FileName (nodeLoc n)) \<noteq> None))
   \<and> (NewResolver s u = Some r0 \<longrightarrow>
        roots r0 (FileName (nodeLoc (rootAST r0))) = Some (rootAST r0)
        \<and> (FileName (nodeLoc n) = FileName (nodeLoc (rootAST r0)) \<longrightarrow> (\<exists>m. Vars r0 n = Inr m)))
   \<and> (Import L s r path = (Some root, s', r') \<longrightarrow>
        roots r' (FileName (nodeLoc root)) = Some root
        \<and> (FileName (nodeLoc n) = FileName (nodeLoc root) \<longrightarrow> (\<exists>m. Vars r' n = Inr m))
        \<and> (roots r (FileName (nodeLoc n)) \<noteq> None \<longrightarrow> (\<exists>m. Vars r' n = Inr m)))
   \<and> (Import L s r path = (None, s', r') \<longrightarrow> roots r' = roots r)"
proof -
  have a: "(Vars r n = Inl NoRootImported) = (roots r (FileName (nodeLoc n)) = None)" for r n
    by (simp add: Vars_def split: option.splits)
  have b: "(\<exists>m. Vars r n = Inr m) = (roots r (FileName (nodeLoc n)) \<noteq> None)" for r n
    by (auto simp: Vars_def split: option.splits)
  have c: "roots r0 (FileName (nodeLoc (rootAST r0))) = Some (rootAST r0)"
    if "NewResolver s u = Some r0"
    using that by (auto simp: NewResolver_def split: option.splits)
  have d: "roots r' = (roots r)(FileName (nodeLoc root) \<mapsto> root)"
    if "Import L s r path = (Some root, s', r')"
    using Import_roots [OF that] by simp
  have e: "roots r' = roots r" if "Import L s r path = (None, s', r')"
    using Import_roots [OF that] by simp
  have c': "NewResolver s u = Some r0 \<longrightarrow>
        roots r0 (FileName (nodeLoc (rootAST r0))) = Some (rootAST r0)
        \<and> (FileName (nodeLoc n) = FileName (nodeLoc (rootAST r0)) \<longrightarrow> (\<exists>m. Vars r0 n = Inr m))"
    using c by (simp add: b)
  have d': "Import L s r path = (Some root, s', r') \<longrightarrow>
        roots r' (FileName (nodeLoc root)) = Some root
        \<and> (FileName (nodeLoc n) = FileName (nodeLoc root) \<longrightarrow> (\<exists>m. Vars r' n = Inr m))
        \<and> (roots r (FileName (nodeLoc n)) \<noteq> None \<longrightarrow> (\<exists>m. Vars r' n = Inr m))"
    using d by (auto simp: b)
  show ?thesis
    using a b c' d' e by blast
qed

theorem Vars_panics_iff_no_root_witness:
  "(\<exists>r0. NewResolver shadowServer ''file:///root/a.jsonnet'' = Some r0)
   \<and> (\<exists>m. Vars (the (NewResolver shadowServer ''file:///root/a.jsonnet'')) queryNode = Inr m)
   \<and> roots (the (NewResolver shadowServer ''file:///root/a.jsonnet''))
        (FileName (nodeLoc libTree)) = None
   \<and> Vars (the (NewResolver shadowServer ''file:///root/a.jsonnet'')) libTree = Inl NoRootImported
   \<and> fst (Import importLib shadowServer
            (the (NewResolver shadowServer ''file:///root/a.jsonnet'')) ''lib.jsonnet'')
       = Some libTree
   \<and> (\<exists>m. Vars (snd (snd (Import importLib shadowServer
            (the (NewResolver shadowServer ''file:///root/a.jsonnet'')) ''lib.jsonnet''))) libTree
         = Inr m)
   \<and> (\<exists>m. Vars (snd (snd (Import importLib shadowServer
            (the (NewResolver shadowServer ''file:///root/a.jsonnet'')) ''lib.jsonnet''))) queryNode
         = Inr m)
   \<and> fst (Import importLib shadowServer
            (the (NewResolver shadowServer ''file:///root/a.jsonnet'')) ''missing.jsonnet'') = None
   \<and> Vars (snd (snd (Import importLib shadowServer
            (the (NewResolver shadowServer ''file:///root/a.jsonnet'')) ''missing.jsonnet''))) libTree
       = Inl NoRootImported"
proof -
  let ?r = "the (NewResolver shadowServer ''file:///root/a.jsonnet'')"
  have new: "NewResolver shadowServer ''file:///root/a.jsonnet'' = Some ?r"
    by (simp add: NewResolver_def getCurrentAST_def shadowServer_def)
  have r: "?r = \<lparr>resolverURI = ''file:///root/a.jsonnet'', rootAST = outerNode,
      stackCache = (\<lambda>n. None),
      roots = (\<lambda>f. None)(FileName (nodeLoc outerNode) \<mapsto> outerNode),
      getvm = Some (\<lambda>s'. getVM s' ''file:///root/a.jsonnet''), resolverVM = None\<rparr>"
    by (simp add: NewResolver_def getCurrentAST_def shadowServer_def)
  have files: "FileName (nodeLoc queryNode) = FileName (nodeLoc (rootAST ?r))"
    by (simp add: r queryNode_def outerNode_def)
  have q: "\<exists>m. Vars ?r queryNode = Inr m"
    using new files
      Vars_panics_iff_no_root [where s = shadowServer and u = "''file:///root/a.jsonnet''"
        and ?r0.0 = ?r and n = queryNode]
    by blast
  have nolib: "roots ?r (FileName (nodeLoc libTree)) = None"
    by (simp add: r libTree_def outerNode_def)
  have p: "Vars ?r libTree = Inl NoRootImported"
    using nolib Vars_panics_iff_no_root [where r = ?r and n = libTree] by blast
  obtain s1 r1 where i1: "Import importLib shadowServer ?r ''lib.jsonnet'' = (Some libTree, s1, r1)"
    by (simp add: r Import_def importWith_def ImportAST_def importLib_def)
  have l: "\<exists>m. Vars r1 libTree = Inr m"
    using i1 Vars_panics_iff_no_root [where L = importLib and s = shadowServer and r = ?r
        and path = "''lib.jsonnet''" and root = libTree and s' = s1 and r' = r1 and n = libTree]
    by blast
  have qroot: "roots ?r (FileName (nodeLoc queryNode)) \<noteq> None"
    by (simp add: r queryNode_def outerNode_def)
  have k: "\<exists>m. Vars r1 queryNode = Inr m"
    using i1 qroot
      Vars_panics_iff_no_root [where L = importLib and s = shadowServer and r = ?r
        and path = "''lib.jsonnet''" and root = libTree and s' = s1 and r' = r1 and n = queryNode]
    by blast
  obtain s2 r2 where i2: "Import importLib shadowServer ?r ''missing.jsonnet'' = (None, s2, r2)"
    by (simp add: r Import_def importWith_def ImportAST_def importLib_def)
  have same: "roots r2 = roots ?r"
    using i2 Vars_panics_iff_no_root [where L = importLib and s = shadowServer and r = ?r
        and path = "''missing.jsonnet''" and s' = s2 and r' = r2]
    by blast
  have p2: "Vars r2 libTree = Inl NoRootImported"
    using same nolib Vars_panics_iff_no_root [where r = r2 and n = libTree] by simp
  have ex: "\<exists>r0. NewResolver shadowServer ''file:///root/a.jsonnet'' = Some r0"
    using new by blast
  have f1: "fst (Import importLib shadowServer ?r ''lib.jsonnet'') = Some libTree"
    and l': "\<exists>m. Vars (snd (snd (Import importLib shadowServer ?r ''lib.jsonnet''))) libTree = Inr m"
    and k': "\<exists>m. Vars (snd (snd (Import importLib shadowServer ?r ''lib.jsonnet''))) queryNode = Inr m"
    using i1 l k by simp_all
  have f2: "fst (Import importLib shadowServer ?r ''missing.jsonnet'') = None"
    and p2': "Vars (snd (snd (Import importLib shadowServer ?r ''missing.jsonnet''))) libTree
        = Inl NoRootImported"
    using i2 p2 by simp_all
  show ?thesis
    using ex q nolib p f1 l' k' f2 p2' by blast
qed

end
